theory Spec2Isabelle
  imports Main "HOL-Library.Word" "HOL-Library.Sublist" "HOL-Library.Signed_Division"
begin

section \<open>Go strings: the functions of package strings the configuration code calls\<close>

text \<open>
  A Go string is a sequence of bytes; it is modelled as a \<^typ>\<open>string\<close>, whose
  characters are 8-bit. The functions below are the ones of the standard library that
  \<open>UnmarshalText\<close>, \<open>GetUnresolvedEndpoints\<close>, \<open>MatchConfig\<close> and the two line
  parsers call.
\<close>

text \<open>
  \<open>strings.Split(s, sep)\<close> for a separator of one byte: the parts of \<open>s\<close> between the
  separators, always at least one (so the case of no part below is never taken).
\<close>

fun Split :: "string \<Rightarrow> char \<Rightarrow> string list" where
  "Split [] sep = [[]]"
| "Split (c # cs) sep =
     (if c = sep then [] # Split cs sep
      else (case Split cs sep of [] \<Rightarrow> [[c]] | p # ps \<Rightarrow> (c # p) # ps))"

text \<open>\<open>strings.Join(parts, sep)\<close>.\<close>

fun Join :: "string list \<Rightarrow> string \<Rightarrow> string" where
  "Join [] sep = []"
| "Join [a] sep = a"
| "Join (a # b # rest) sep = a @ sep @ Join (b # rest) sep"

text \<open>
  \<open>unicode.IsSpace\<close>, on the UTF-8 encoding: the six ASCII white-space bytes, and the
  encodings of U+0085, U+00A0, U+1680, U+2000..U+200A, U+2028, U+2029, U+202F, U+205F
  and U+3000. A byte sequence that is not valid UTF-8 decodes to the error rune, which
  is not white space.
\<close>

definition spaceRunes :: "string list" where
  "spaceRunes =
     [[CHR 0x09], [CHR 0x0A], [CHR 0x0B], [CHR 0x0C], [CHR 0x0D], [CHR 0x20],
      [CHR 0xC2, CHR 0x85], [CHR 0xC2, CHR 0xA0],
      [CHR 0xE1, CHR 0x9A, CHR 0x80],
      [CHR 0xE2, CHR 0x80, CHR 0x80], [CHR 0xE2, CHR 0x80, CHR 0x81],
      [CHR 0xE2, CHR 0x80, CHR 0x82], [CHR 0xE2, CHR 0x80, CHR 0x83],
      [CHR 0xE2, CHR 0x80, CHR 0x84], [CHR 0xE2, CHR 0x80, CHR 0x85],
      [CHR 0xE2, CHR 0x80, CHR 0x86], [CHR 0xE2, CHR 0x80, CHR 0x87],
      [CHR 0xE2, CHR 0x80, CHR 0x88], [CHR 0xE2, CHR 0x80, CHR 0x89],
      [CHR 0xE2, CHR 0x80, CHR 0x8A],
      [CHR 0xE2, CHR 0x80, CHR 0xA8], [CHR 0xE2, CHR 0x80, CHR 0xA9],
      [CHR 0xE2, CHR 0x80, CHR 0xAF],
      [CHR 0xE2, CHR 0x81, CHR 0x9F],
      [CHR 0xE3, CHR 0x80, CHR 0x80]]"

text \<open>The width in bytes of the white-space rune a string starts with; 0 when it starts with none.\<close>

fun leadingRune :: "string list \<Rightarrow> string \<Rightarrow> nat" where
  "leadingRune [] s = 0"
| "leadingRune (r # rs) s = (if prefix r s then length r else leadingRune rs s)"

function TrimLeftRunes :: "string list \<Rightarrow> string \<Rightarrow> string" where
  "TrimLeftRunes rs s =
     (if leadingRune rs s = 0 \<or> s = [] then s
      else TrimLeftRunes rs (drop (leadingRune rs s) s))"
  by pat_completeness auto
termination
  by (relation "measure (\<lambda>(rs, s). length s)") auto

declare TrimLeftRunes.simps [simp del]

text \<open>
  \<open>strings.TrimSpace\<close>: white-space runes are cut from the left, then from the right
  (where the last rune is found by decoding backwards, which for these runes is a
  match of the reversed encoding on the reversed string).
\<close>

definition TrimSpace :: "string \<Rightarrow> string" where
  "TrimSpace s =
     rev (TrimLeftRunes (map rev spaceRunes) (rev (TrimLeftRunes spaceRunes s)))"

text \<open>The position of a byte in a string, if it occurs (as in a decoding table).\<close>

fun indexOf :: "string \<Rightarrow> char \<Rightarrow> nat option" where
  "indexOf [] c = None"
| "indexOf (x # xs) c = (if x = c then Some 0 else map_option Suc (indexOf xs c))"

text \<open>\<open>strings.ToLower\<close> on a byte: only an ASCII capital letter changes.\<close>

definition lowerByte :: "char \<Rightarrow> char" where
  "lowerByte c =
     (case indexOf ''ABCDEFGHIJKLMNOPQRSTUVWXYZ'' c of
        None \<Rightarrow> c
      | Some i \<Rightarrow> ''abcdefghijklmnopqrstuvwxyz'' ! i)"

text \<open>
  \<open>strings.ToLower(s) == "off"\<close>. No rune outside ASCII has \<open>o\<close> or \<open>f\<close> as its lower
  case, and an invalid byte is not mapped to ASCII, so the comparison holds exactly
  when \<open>s\<close> is three ASCII letters that spell \<open>off\<close> in either case.
\<close>

definition lowerIsOff :: "string \<Rightarrow> bool" where
  "lowerIsOff s \<longleftrightarrow> map lowerByte s = ''off''"





section \<open>Numbers and booleans: package strconv, and how the template prints an integer\<close>

text \<open>Go's \<open>int\<close>, \<open>int64\<close> and \<open>time.Duration\<close> are 64-bit two's complement integers.\<close>

type_synonym int64 = "64 word"

definition digits :: string where
  "digits = ''0123456789''"

definition digitVal :: "char \<Rightarrow> nat option" where
  "digitVal c = indexOf digits c"

text \<open>The digits of \<open>strconv.ParseUint(s, 10, 64)\<close>, read from the left onto \<open>acc\<close>.\<close>

fun parseDigits :: "int \<Rightarrow> string \<Rightarrow> int option" where
  "parseDigits acc [] = Some acc"
| "parseDigits acc (c # cs) =
     (case digitVal c of None \<Rightarrow> None | Some d \<Rightarrow> parseDigits (10 * acc + int d) cs)"

text \<open>
  \<open>strconv.ParseInt(s, 10, 64)\<close>: an optional sign, then at least one decimal digit
  and nothing else; a value outside the 64-bit signed range is an error. \<open>None\<close> is
  the error (the callers only test \<open>err != nil\<close>).
\<close>

definition ParseInt :: "string \<Rightarrow> int64 option" where
  "ParseInt s =
     (case s of
        [] \<Rightarrow> None
      | c # cs \<Rightarrow>
          (let neg = (c = CHR ''-'');
               ds = (if c = CHR ''+'' \<or> c = CHR ''-'' then cs else s)
           in if ds = [] then None
              else (case parseDigits 0 ds of
                      None \<Rightarrow> None
                    | Some un \<Rightarrow>
                        if \<not> neg \<and> un \<ge> 2 ^ 63 then None
                        else if neg \<and> un > 2 ^ 63 then None
                        else Some (if neg then - word_of_int un else word_of_int un))))"

text \<open>\<open>strconv.ParseBool\<close>.\<close>

definition ParseBool :: "string \<Rightarrow> bool option" where
  "ParseBool s =
     (if s \<in> {''1'', ''t'', ''T'', ''TRUE'', ''true'', ''True''} then Some True
      else if s \<in> {''0'', ''f'', ''F'', ''FALSE'', ''false'', ''False''} then Some False
      else None)"

text \<open>The decimal digits of a number that is not negative, as \<open>fmt\<close> prints them.\<close>

function decimal :: "int \<Rightarrow> string" where
  "decimal n =
     (if n < 10 then [digits ! nat n]
      else decimal (n div 10) @ [digits ! nat (n mod 10)])"
  by pat_completeness auto
termination
  by (relation "measure nat") auto

declare decimal.simps [simp del]

text \<open>How \<open>text/template\<close> (through \<open>fmt.Fprint\<close>) prints an \<open>int\<close>.\<close>

definition formatInt :: "int64 \<Rightarrow> string" where
  "formatInt w = (if sint w < 0 then CHR ''-'' # decimal (- sint w) else decimal (sint w))"

definition formatBool :: "bool \<Rightarrow> string" where
  "formatBool b = (if b then ''true'' else ''false'')"

text \<open>How \<open>fmt.Fprint\<close> prints a \<open>[]string\<close>: the elements between brackets, one space apart.\<close>

definition formatStrings :: "string list \<Rightarrow> string" where
  "formatStrings xs = ''['' @ Join xs '' '' @ '']''"

section \<open>Keys and base64 (package encoding/base64, \<open>StdEncoding\<close>)\<close>

type_synonym byte = "8 word"

text \<open>A \<open>wgtypes.Key\<close> is a \<open>[32]byte\<close>: a list of 32 bytes.\<close>

type_synonym Key = "byte list"

definition KeyLen :: nat where
  "KeyLen = 32"

definition zeroKey :: Key where
  "zeroKey = replicate KeyLen 0"

definition encodeStd :: string where
  "encodeStd = ''ABCDEFGHIJKLMNOPQRSTUVWXYZabcdefghijklmnopqrstuvwxyz0123456789+/''"

text \<open>The decoding table: the position of a byte in the alphabet.\<close>

definition decodeMap :: "char \<Rightarrow> nat option" where
  "decodeMap c = indexOf encodeStd c"

definition padChar :: char where
  "padChar = CHR ''=''"

text \<open>
  One quantum after another of the input without its \<open>\r\<close> and \<open>\n\<close>: four alphabet
  bytes give three bytes; the last quantum may end in one or two padding bytes and
  gives two or one byte. Anything else (a byte outside the alphabet, a quantum cut
  short, bytes after the padding) is a \<open>CorruptInputError\<close>, here \<open>None\<close>. The decoder
  is not strict: the unused low bits of a padded quantum are not checked.
\<close>

fun decodeQuanta :: "string \<Rightarrow> byte list option" where
  "decodeQuanta [] = Some []"
| "decodeQuanta (a # b # c # d # rest) =
     (case (decodeMap a, decodeMap b) of
        (Some x, Some y) \<Rightarrow>
          (if c = padChar then
             (if d = padChar \<and> rest = [] then Some [of_nat ((x * 64 + y) div 16)] else None)
           else
             (case decodeMap c of
                None \<Rightarrow> None
              | Some z \<Rightarrow>
                  (if d = padChar then
                     (if rest = []
                      then Some [of_nat ((x * 64 + y) div 16),
                                 of_nat (((y * 64 + z) div 4) mod 256)]
                      else None)
                   else
                     (case decodeMap d of
                        None \<Rightarrow> None
                      | Some w \<Rightarrow>
                          (case decodeQuanta rest of
                             None \<Rightarrow> None
                           | Some bs \<Rightarrow>
                               Some (of_nat ((x * 64 + y) div 16)
                                     # of_nat (((y * 64 + z) div 4) mod 256)
                                     # of_nat ((z * 64 + w) mod 256)
                                     # bs))))))
      | _ \<Rightarrow> None)"
| "decodeQuanta _ = None"

text \<open>\<open>base64.StdEncoding.DecodeString\<close>.\<close>

definition DecodeString :: "string \<Rightarrow> byte list option" where
  "DecodeString s = decodeQuanta (filter (\<lambda>c. c \<noteq> CHR 0x0A \<and> c \<noteq> CHR 0x0D) s)"

text \<open>\<open>base64.StdEncoding.EncodeToString\<close>: three bytes give four alphabet bytes, with padding at the end.\<close>

fun EncodeToString :: "byte list \<Rightarrow> string" where
  "EncodeToString [] = []"
| "EncodeToString [a] =
     [encodeStd ! (unat a div 4), encodeStd ! ((unat a mod 4) * 16), padChar, padChar]"
| "EncodeToString [a, b] =
     [encodeStd ! (unat a div 4), encodeStd ! ((unat a mod 4) * 16 + unat b div 16),
      encodeStd ! ((unat b mod 16) * 4), padChar]"
| "EncodeToString (a # b # c # rest) =
     encodeStd ! (unat a div 4) # encodeStd ! ((unat a mod 4) * 16 + unat b div 16)
     # encodeStd ! ((unat b mod 16) * 4 + unat c div 64) # encodeStd ! (unat c mod 64)
     # EncodeToString rest"

text \<open>Go's \<open>copy(pkey[:], src)\<close> into a zeroed \<open>[32]byte\<close>: the first 32 bytes of \<open>src\<close>, the rest stays zero.\<close>

definition copyKey :: "byte list \<Rightarrow> Key" where
  "copyKey src = take KeyLen src @ replicate (KeyLen - length src) 0"

datatype fieldError =
    CannotDecodeKey
  | PresharedKeyAlreadyDefined
  | CannotParseCIDR
  | CannotParseIP
  | CannotParseInt
  | CannotParseBool
  | CannotResolveEndpoint
  | UnknownDirective string
  | NilPeerConfig

text \<open>
  \<open>ParseKey\<close> of the package: the decoded bytes are copied into the key, whatever
  their number.
\<close>

definition ParseKey :: "string \<Rightarrow> fieldError + Key" where
  "ParseKey key =
     (case DecodeString key of
        None \<Rightarrow> Inl CannotDecodeKey
      | Some pkeySlice \<Rightarrow> Inr (copyKey pkeySlice))"

text \<open>
  \<open>wgtypes.ParseKey\<close> of the wgctrl library, which \<open>GetUnresolvedEndpoints\<close> calls: it
  decodes the base64 text and, through \<open>wgtypes.NewKey\<close>, refuses a byte count other
  than 32.
\<close>

definition wgtypes_ParseKey :: "string \<Rightarrow> Key option" where
  "wgtypes_ParseKey s =
     (case DecodeString s of
        None \<Rightarrow> None
      | Some b \<Rightarrow> if length b \<noteq> KeyLen then None else Some (copyKey b))"

text \<open>\<open>serializeKey\<close> on a key that is there; \<open>wgtypes.Key.String\<close> is the same encoding.\<close>

definition serializeKey :: "Key \<Rightarrow> string" where
  "serializeKey key = EncodeToString key"

section \<open>The configuration model\<close>

text \<open>
  \<open>net.IP\<close> and \<open>net.IPMask\<close> are byte slices, \<open>net.IPNet\<close> and \<open>net.UDPAddr\<close> are
  structs of the standard library.
\<close>

type_synonym IP = "byte list"

record IPNet =
  IP :: IP
  Mask :: "byte list"

record UDPAddr =
  UDPAddr_IP :: IP
  Port :: int64
  Zone :: string

text \<open>
  The functions of package \<open>net\<close> the code calls are not part of the repository and one
  of them asks the resolver of the machine: they are parameters of the model. \<open>None\<close>
  is an error (a nil \<open>net.IP\<close> for \<open>ParseIP\<close>). The three \<open>String\<close> methods are what the
  template prints for a value of the type.
\<close>

record netlib =
  ParseCIDR :: "string \<Rightarrow> (IP \<times> IPNet) option"
  ParseIP :: "string \<Rightarrow> IP option"
  ResolveUDPAddr :: "string \<Rightarrow> UDPAddr option"
  IPNet_String :: "IPNet \<Rightarrow> string"
  IP_String :: "IP \<Rightarrow> string"
  UDPAddr_String :: "UDPAddr \<Rightarrow> string"

text \<open>\<open>wgtypes.PeerConfig\<close>; a pointer field is an option, \<open>nil\<close> is \<open>None\<close>.\<close>

record PeerConfig =
  PublicKey :: Key
  Remove :: bool
  UpdateOnly :: bool
  PresharedKey :: "Key option"
  Endpoint :: "UDPAddr option"
  PersistentKeepaliveInterval :: "int64 option"
  ReplaceAllowedIPs :: bool
  AllowedIPs :: "IPNet list"

text \<open>\<open>Config\<close>, with the fields of the embedded \<open>wgtypes.Config\<close> first.\<close>

record Config =
  PrivateKey :: "Key option"
  ListenPort :: "int64 option"
  FirewallMark :: "int64 option"
  ReplacePeers :: bool
  Peers :: "PeerConfig list"
  Address :: "IPNet list"
  DNS :: "IP list"
  MTU :: int64
  Table :: "int64 option"
  PreUp :: "string list"
  PostUp :: "string list"
  PreDown :: "string list"
  PostDown :: "string list"
  RouteProtocol :: int64
  RouteMetric :: int64
  AddressLabel :: string
  SaveConfig :: bool
  WgBin :: string

text \<open>The zero values \<open>wgtypes.PeerConfig{}\<close> and \<open>Config{}\<close>.\<close>

definition zeroPeerConfig :: PeerConfig where
  "zeroPeerConfig =
     \<lparr>PublicKey = zeroKey, Remove = False, UpdateOnly = False, PresharedKey = None,
      Endpoint = None, PersistentKeepaliveInterval = None, ReplaceAllowedIPs = False,
      AllowedIPs = []\<rparr>"

definition zeroConfig :: Config where
  "zeroConfig =
     \<lparr>PrivateKey = None, ListenPort = None, FirewallMark = None, ReplacePeers = False,
      Peers = [], Address = [], DNS = [], MTU = 0, Table = None, PreUp = [], PostUp = [],
      PreDown = [], PostDown = [], RouteProtocol = 0, RouteMetric = 0, AddressLabel = [],
      SaveConfig = False, WgBin = []\<rparr>"

text \<open>\<open>newConfig\<close>: \<open>Table\<close> points to a fresh zero.\<close>

definition newConfig :: Config where
  "newConfig = zeroConfig\<lparr>Table := Some 0\<rparr>"

section \<open>The decoder\<close>

text \<open>
  The loop shared by \<open>Address\<close> and \<open>AllowedIPs\<close>: every part of the value between
  commas is trimmed and given to \<open>net.ParseCIDR\<close>; the address found and the mask of
  the network are appended. The first error ends it.
\<close>

fun parseCIDRs :: "netlib \<Rightarrow> string list \<Rightarrow> IPNet list \<Rightarrow> IPNet list option" where
  "parseCIDRs L [] acc = Some acc"
| "parseCIDRs L (addr # rest) acc =
     (case ParseCIDR L (TrimSpace addr) of
        None \<Rightarrow> None
      | Some (ip, cidr) \<Rightarrow> parseCIDRs L rest (acc @ [\<lparr>IP = ip, Mask = Mask cidr\<rparr>]))"

fun parseIPs :: "netlib \<Rightarrow> string list \<Rightarrow> IP list \<Rightarrow> IP list option" where
  "parseIPs L [] acc = Some acc"
| "parseIPs L (addr # rest) acc =
     (case ParseIP L (TrimSpace addr) of
        None \<Rightarrow> None
      | Some ip \<Rightarrow> parseIPs L rest (acc @ [ip]))"

definition parseInterfaceLine :: "netlib \<Rightarrow> Config \<Rightarrow> string \<Rightarrow> string \<Rightarrow> fieldError + Config" where
  "parseInterfaceLine L cfg lhs rhs =
     (if lhs = ''Address'' then
        (case parseCIDRs L (Split rhs CHR '','') (Address cfg) of
           None \<Rightarrow> Inl CannotParseCIDR
         | Some as \<Rightarrow> Inr (cfg\<lparr>Address := as\<rparr>))
      else if lhs = ''DNS'' then
        (case parseIPs L (Split rhs CHR '','') (DNS cfg) of
           None \<Rightarrow> Inl CannotParseIP
         | Some ds \<Rightarrow> Inr (cfg\<lparr>DNS := ds\<rparr>))
      else if lhs = ''MTU'' then
        (case ParseInt rhs of
           None \<Rightarrow> Inl CannotParseInt
         | Some mtu \<Rightarrow> Inr (cfg\<lparr>MTU := mtu\<rparr>))
      else if lhs = ''Table'' then
        (if lowerIsOff rhs then Inr (cfg\<lparr>Table := None\<rparr>)
         else (case ParseInt rhs of
                 None \<Rightarrow> Inl CannotParseInt
               | Some tbl \<Rightarrow> Inr (cfg\<lparr>Table := Some tbl\<rparr>)))
      else if lhs = ''ListenPort'' then
        (case ParseInt rhs of
           None \<Rightarrow> Inl CannotParseInt
         | Some port \<Rightarrow> Inr (cfg\<lparr>ListenPort := Some port\<rparr>))
      else if lhs = ''PreUp'' then Inr (cfg\<lparr>PreUp := PreUp cfg @ [rhs]\<rparr>)
      else if lhs = ''PostUp'' then Inr (cfg\<lparr>PostUp := PostUp cfg @ [rhs]\<rparr>)
      else if lhs = ''PreDown'' then Inr (cfg\<lparr>PreDown := PreDown cfg @ [rhs]\<rparr>)
      else if lhs = ''PostDown'' then Inr (cfg\<lparr>PostDown := PostDown cfg @ [rhs]\<rparr>)
      else if lhs = ''SaveConfig'' then
        (case ParseBool rhs of
           None \<Rightarrow> Inl CannotParseBool
         | Some save \<Rightarrow> Inr (cfg\<lparr>SaveConfig := save\<rparr>))
      else if lhs = ''PrivateKey'' then
        (case ParseKey rhs of
           Inl err \<Rightarrow> Inl CannotDecodeKey
         | Inr key \<Rightarrow> Inr (cfg\<lparr>PrivateKey := Some key\<rparr>))
      else if lhs = ''WgBin'' then Inr (cfg\<lparr>WgBin := rhs\<rparr>)
      else Inl (UnknownDirective lhs))"

text \<open>One second in nanoseconds, \<open>time.Second\<close>.\<close>

definition Second :: int64 where
  "Second = 1000000000"

definition parsePeerLine :: "netlib \<Rightarrow> PeerConfig \<Rightarrow> string \<Rightarrow> string \<Rightarrow> fieldError + PeerConfig" where
  "parsePeerLine L peerCfg lhs rhs =
     (if lhs = ''PublicKey'' then
        (case ParseKey rhs of
           Inl err \<Rightarrow> Inl CannotDecodeKey
         | Inr key \<Rightarrow> Inr (peerCfg\<lparr>PublicKey := key\<rparr>))
      else if lhs = ''PresharedKey'' then
        (case ParseKey rhs of
           Inl err \<Rightarrow> Inl CannotDecodeKey
         | Inr key \<Rightarrow>
             if PresharedKey peerCfg \<noteq> None then Inl PresharedKeyAlreadyDefined
             else Inr (peerCfg\<lparr>PresharedKey := Some key\<rparr>))
      else if lhs = ''AllowedIPs'' then
        (case parseCIDRs L (Split rhs CHR '','') (AllowedIPs peerCfg) of
           None \<Rightarrow> Inl CannotParseCIDR
         | Some as \<Rightarrow> Inr (peerCfg\<lparr>AllowedIPs := as\<rparr>))
      else if lhs = ''Endpoint'' then
        (case ResolveUDPAddr L rhs of
           None \<Rightarrow> Inl CannotResolveEndpoint
         | Some addr \<Rightarrow> Inr (peerCfg\<lparr>Endpoint := Some addr\<rparr>))
      else if lhs = ''PersistentKeepalive'' then
        (case ParseInt rhs of
           None \<Rightarrow> Inl CannotParseInt
         | Some t \<Rightarrow> Inr (peerCfg\<lparr>PersistentKeepaliveInterval := Some (t * Second)\<rparr>))
      else Inl (UnknownDirective lhs))"

datatype parseState = unknown | inter | peer

text \<open>
  The errors of the functions that read a whole text. The number is the one the
  message prints: \<open>"cannot parse line %d, missing ="\<close>, \<open>"[line %d]: %v"\<close>,
  \<open>"[line %d] cannot parse, unknown state"\<close>.
\<close>

datatype error =
    MissingEquals nat
  | LineError nat fieldError
  | UnknownState nat
  | CannotReadFile
  | CannotParseKey
  | CannotParseConfigFile error

text \<open>
  What the loop of \<open>UnmarshalText\<close> carries from line to line: the configuration
  being built, the section, and \<open>peerCfg\<close>, the pointer to the last element of
  \<open>Peers\<close>, as its index.
\<close>

record decoder =
  cfg :: Config
  state :: parseState
  peerCfg :: "nat option"

text \<open>
  The \<open>switch state\<close> of the loop: a key and its value go to the parser of the section
  the line of index \<open>no\<close> is in. Outside every section the line is an error.
\<close>

definition dispatch :: "netlib \<Rightarrow> nat \<Rightarrow> decoder \<Rightarrow> string \<Rightarrow> string \<Rightarrow> error + decoder" where
  "dispatch L no d lhs rhs =
     (case state d of
        inter \<Rightarrow>
          (case parseInterfaceLine L (cfg d) lhs rhs of
             Inl err \<Rightarrow> Inl (LineError (no + 1) err)
           | Inr c \<Rightarrow> Inr (d\<lparr>cfg := c\<rparr>))
      | peer \<Rightarrow>
          (case peerCfg d of
             None \<Rightarrow> Inl (LineError (no + 1) NilPeerConfig)
           | Some i \<Rightarrow>
               (case parsePeerLine L (Peers (cfg d) ! i) lhs rhs of
                  Inl err \<Rightarrow> Inl (LineError (no + 1) err)
                | Inr p \<Rightarrow> Inr (d\<lparr>cfg := (cfg d)\<lparr>Peers := (Peers (cfg d))[i := p]\<rparr>\<rparr>)))
      | unknown \<Rightarrow> Inl (UnknownState (no + 1)))"

text \<open>The body of the loop for the line of index \<open>no\<close> (from 0).\<close>

definition decodeLine :: "netlib \<Rightarrow> nat \<Rightarrow> string \<Rightarrow> decoder \<Rightarrow> error + decoder" where
  "decodeLine L no line d =
     (let ln = TrimSpace line in
      if length ln = 0 \<or> hd ln = CHR ''#'' then Inr d
      else if ln = ''[Interface]'' then Inr (d\<lparr>state := inter\<rparr>)
      else if ln = ''[Peer]'' then
        Inr (d\<lparr>state := peer,
               cfg := (cfg d)\<lparr>Peers := Peers (cfg d) @ [zeroPeerConfig]\<rparr>,
               peerCfg := Some (length (Peers (cfg d) @ [zeroPeerConfig]) - 1)\<rparr>)
      else
        (let parts = Split ln CHR ''='' in
         if length parts < 2 then Inl (MissingEquals no)
         else dispatch L no d (TrimSpace (hd parts)) (TrimSpace (Join (tl parts) ''=''))))"

text \<open>\<open>for no, line := range lines\<close>, left at the first error.\<close>

fun decodeLines :: "netlib \<Rightarrow> nat \<Rightarrow> string list \<Rightarrow> decoder \<Rightarrow> error + decoder" where
  "decodeLines L no [] d = Inr d"
| "decodeLines L no (line # rest) d =
     (case decodeLine L no line d of
        Inl err \<Rightarrow> Inl err
      | Inr d' \<Rightarrow> decodeLines L (Suc no) rest d')"

text \<open>
  \<open>Config.UnmarshalText\<close>. The receiver is overwritten by \<open>newConfig()\<close> first, so the
  result does not depend on it; on success the configuration built is returned.
\<close>

definition decodeStart :: decoder where
  "decodeStart = \<lparr>cfg = newConfig, state = unknown, peerCfg = None\<rparr>"

definition UnmarshalText :: "netlib \<Rightarrow> string \<Rightarrow> error + Config" where
  "UnmarshalText L text =
     (case decodeLines L 0 (Split text CHR 0x0A) decodeStart of
        Inl err \<Rightarrow> Inl err
      | Inr d \<Rightarrow> Inr (cfg d))"

section \<open>Reading configurations by name and by pattern\<close>

text \<open>
  The directory \<open>/etc/wireguard\<close> is read through \<open>os.ReadDir\<close> and \<open>os.ReadFile\<close>, which
  are parameters: \<open>ReadDir\<close> gives the names of the entries of a directory, \<open>ReadFile\<close>
  the content of the file at the path \<open>filepath.Join\<close> makes of its argument; \<open>None\<close> is
  an error. \<open>regexp.Match\<close> is a parameter as well, from a pattern and a subject to
  whether it matches, \<open>None\<close> when the pattern does not compile.
\<close>

record files =
  ReadDir :: "string \<Rightarrow> string list option"
  ReadFile :: "string \<Rightarrow> string option"


text \<open>\<open>GetConfig\<close>.\<close>

definition GetConfig :: "netlib \<Rightarrow> files \<Rightarrow> string \<Rightarrow> error + Config" where
  "GetConfig L F name =
     (case ReadFile F (''/etc/wireguard/'' @ name @ ''.conf'') of
        None \<Rightarrow> Inl CannotReadFile
      | Some b \<Rightarrow>
          (case UnmarshalText L b of
             Inl err \<Rightarrow> Inl (CannotParseConfigFile err)
           | Inr c \<Rightarrow> Inr c))"





section \<open>The endpoint extractor\<close>

text \<open>The variables of the loop of \<open>GetUnresolvedEndpoints\<close>.\<close>

record scanner =
  scanState :: parseState
  endpoint :: string
  pubkey :: string
  unresolvedEndpoints :: "Key \<rightharpoonup> string"

text \<open>The body of the loop for the line of index \<open>no\<close> (from 0).\<close>

definition scanLine :: "nat \<Rightarrow> string \<Rightarrow> scanner \<Rightarrow> error + scanner" where
  "scanLine no line s =
     (let ln = TrimSpace line in
      if length ln = 0 \<or> hd ln = CHR ''#'' then Inr s
      else if ln = ''[Interface]'' then Inr (s\<lparr>scanState := inter\<rparr>)
      else if ln = ''[Peer]'' then Inr (s\<lparr>scanState := peer, endpoint := [], pubkey := []\<rparr>)
      else if scanState s \<noteq> peer then Inr s
      else
        (let parts = Split ln CHR ''='' in
         if length parts < 2 then Inl (MissingEquals no)
         else
           (let lhs = TrimSpace (hd parts);
                rhs = TrimSpace (Join (tl parts) ''='');
                s1 = (if lhs = ''PublicKey'' then s\<lparr>pubkey := rhs\<rparr>
                      else if lhs = ''Endpoint'' then s\<lparr>endpoint := rhs\<rparr>
                      else s)
            in if pubkey s1 = [] \<or> endpoint s1 = [] then Inr s1
               else
                 (case wgtypes_ParseKey (pubkey s1) of
                    None \<Rightarrow> Inl CannotParseKey
                  | Some key \<Rightarrow>
                      Inr (s1\<lparr>unresolvedEndpoints := (unresolvedEndpoints s1)(key \<mapsto> endpoint s1),
                              endpoint := [], pubkey := []\<rparr>)))))"

fun scanLines :: "nat \<Rightarrow> string list \<Rightarrow> scanner \<Rightarrow> error + scanner" where
  "scanLines no [] s = Inr s"
| "scanLines no (line # rest) s =
     (case scanLine no line s of
        Inl err \<Rightarrow> Inl err
      | Inr s' \<Rightarrow> scanLines (Suc no) rest s')"

text \<open>The variables before the first line.\<close>

definition scanStart :: scanner where
  "scanStart =
     \<lparr>scanState = unknown, endpoint = [], pubkey = [], unresolvedEndpoints = Map.empty\<rparr>"

definition GetUnresolvedEndpoints :: "files \<Rightarrow> string \<Rightarrow> error + (Key \<rightharpoonup> string)" where
  "GetUnresolvedEndpoints F name =
     (case ReadFile F (''/etc/wireguard/'' @ name @ ''.conf'') of
        None \<Rightarrow> Inl CannotReadFile
      | Some b \<Rightarrow>
          (case scanLines 0 (Split b CHR 0x0A) scanStart of
             Inl err \<Rightarrow> Inl err
           | Inr s \<Rightarrow> Inr (unresolvedEndpoints s)))"

section \<open>The encoder\<close>

text \<open>\<open>toSeconds\<close>: Go's integer division rounds towards zero.\<close>

definition toSeconds :: "int64 \<Rightarrow> int64" where
  "toSeconds duration = word_of_int (sint duration sdiv sint Second)"

text \<open>
  The only action of the template that can fail is \<open>.PrivateKey | wgKey\<close>: the pointer
  is handed to \<open>serializeKey\<close> as it is, whose \<open>key[:]\<close> panics on \<open>nil\<close>; the template
  package turns the panic into the error of \<open>Execute\<close>.
\<close>

datatype templateError = ErrorCallingWgKey

text \<open>
  What \<open>wgtypeTemplateSpec\<close> writes for one element of \<open>.Peers\<close>. A pointer is true in
  an \<open>if\<close> when it is not nil, whatever it points to, and is printed as the value it
  points to.
\<close>

definition peerText :: "netlib \<Rightarrow> PeerConfig \<Rightarrow> string" where
  "peerText L p =
     [CHR 0x0A] @ [CHR 0x0A] @ ''[Peer]'' @ [CHR 0x0A]
     @ ''PublicKey = '' @ serializeKey (PublicKey p) @ [CHR 0x0A]
     @ ''AllowedIPs = '' @ Join (map (IPNet_String L) (AllowedIPs p)) '', ''
     @ (case PresharedKey p of
          None \<Rightarrow> []
        | Some k \<Rightarrow> [CHR 0x0A] @ ''PresharedKey = '' @ serializeKey k)
     @ (case PersistentKeepaliveInterval p of
          None \<Rightarrow> []
        | Some d \<Rightarrow> [CHR 0x0A] @ ''PersistentKeepalive = '' @ formatInt (toSeconds d))
     @ (case Endpoint p of
          None \<Rightarrow> []
        | Some e \<Rightarrow> [CHR 0x0A] @ ''Endpoint = '' @ UDPAddr_String L e)"

text \<open>\<open>Config.MarshalText\<close>: the text the template writes, or its error.\<close>

definition MarshalText :: "netlib \<Rightarrow> Config \<Rightarrow> templateError + string" where
  "MarshalText L c =
     (case PrivateKey c of
        None \<Rightarrow> Inl ErrorCallingWgKey
      | Some key \<Rightarrow>
          Inr (''[Interface]''
               @ concat (map (\<lambda>a. [CHR 0x0A] @ ''Address = '' @ IPNet_String L a) (Address c))
               @ concat (map (\<lambda>d. [CHR 0x0A] @ ''DNS = '' @ IP_String L d) (DNS c))
               @ [CHR 0x0A] @ ''PrivateKey = '' @ serializeKey key
               @ (case ListenPort c of
                    None \<Rightarrow> []
                  | Some port \<Rightarrow> [CHR 0x0A] @ ''ListenPort = '' @ formatInt port)
               @ (if MTU c \<noteq> 0 then [CHR 0x0A] @ ''MTU = '' @ formatInt (MTU c) else [])
               @ (case Table c of
                    None \<Rightarrow> []
                  | Some tbl \<Rightarrow> [CHR 0x0A] @ ''Table = '' @ formatInt tbl)
               @ (if PreUp c \<noteq> [] then [CHR 0x0A] @ ''PreUp = '' @ formatStrings (PreUp c) else [])
               @ (if PostUp c \<noteq> [] then [CHR 0x0A] @ ''PostUp = '' @ formatStrings (PostUp c) else [])
               @ (if PreDown c \<noteq> [] then [CHR 0x0A] @ ''PreDown = '' @ formatStrings (PreDown c) else [])
               @ (if PostDown c \<noteq> [] then [CHR 0x0A] @ ''PostDown = '' @ formatStrings (PostDown c) else [])
               @ (if SaveConfig c then [CHR 0x0A] @ ''SaveConfig = '' @ formatBool (SaveConfig c) else [])
               @ concat (map (peerText L) (Peers c))
               @ [CHR 0x0A]))"

section \<open>Vocabulary for the lines of a text\<close>

text \<open>
  A directive is a line that both loops read as \<open>key = value\<close>: after trimming it is
  not empty, does not start with \<open>#\<close> and has a \<open>=\<close> (so it is no section header). Its
  key is the trimmed text before the first \<open>=\<close>, its value the trimmed text after it.
\<close>

definition isDirective :: "string \<Rightarrow> bool" where
  "isDirective line \<longleftrightarrow>
     TrimSpace line \<noteq> [] \<and> hd (TrimSpace line) \<noteq> CHR ''#'' \<and> CHR ''='' \<in> set (TrimSpace line)"

definition keyOf :: "string \<Rightarrow> string" where
  "keyOf line = TrimSpace (takeWhile (\<lambda>c. c \<noteq> CHR ''='') (TrimSpace line))"

definition valueOf :: "string \<Rightarrow> string" where
  "valueOf line = TrimSpace (tl (dropWhile (\<lambda>c. c \<noteq> CHR ''='') (TrimSpace line)))"

text \<open>
  Two properties of the state of the decoder: while a \<open>[Peer]\<close> section is read, \<open>peerCfg\<close>
  points into \<open>Peers\<close>; and the peer it points to has its preshared key set.
\<close>

definition peerBound :: "decoder \<Rightarrow> bool" where
  "peerBound d \<longleftrightarrow> (state d = peer \<longrightarrow> (\<exists>i. peerCfg d = Some i \<and> i < length (Peers (cfg d))))"

definition presharedSet :: "decoder \<Rightarrow> bool" where
  "presharedSet d \<longleftrightarrow>
     (state d = peer \<longrightarrow>
        (\<exists>i. peerCfg d = Some i \<and> i < length (Peers (cfg d))
             \<and> PresharedKey (Peers (cfg d) ! i) \<noteq> None))"

text \<open>
  A string with no white space at its ends: it is not empty, its first byte is not
  the first byte of a white-space rune and its last byte not the last byte of one.
  A printable byte is an ASCII byte from \<open>!\<close> to \<open>~\<close>.
\<close>

definition trimmed :: "string \<Rightarrow> bool" where
  "trimmed s \<longleftrightarrow> s \<noteq> [] \<and> hd s \<notin> set (map hd spaceRunes) \<and> last s \<notin> set (map last spaceRunes)"

definition printable :: "char \<Rightarrow> bool" where
  "printable c \<longleftrightarrow> 33 \<le> (of_char c :: nat) \<and> (of_char c :: nat) \<le> 126"


section \<open>Configurations that come back from their text\<close>

text \<open>
  A text that can stand as the value of a directive: no white space at its ends and
  no line feed.
\<close>

definition valueText :: "string \<Rightarrow> bool" where
  "valueText s \<longleftrightarrow> trimmed s \<and> CHR 0x0A \<notin> set s"

text \<open>
  A network, an address and an endpoint are readable when package \<open>net\<close> prints them
  as such a text (with no comma, where the directive takes a list) and reads that
  text back as the same value.
\<close>

definition readableIPNet :: "netlib \<Rightarrow> IPNet \<Rightarrow> bool" where
  "readableIPNet L a \<longleftrightarrow>
     valueText (IPNet_String L a) \<and> CHR '','' \<notin> set (IPNet_String L a)
     \<and> (case ParseCIDR L (IPNet_String L a) of
          None \<Rightarrow> False
        | Some (ip, cidr) \<Rightarrow> a = \<lparr>IP = ip, Mask = Mask cidr\<rparr>)"

definition readableIP :: "netlib \<Rightarrow> IP \<Rightarrow> bool" where
  "readableIP L ip \<longleftrightarrow>
     valueText (IP_String L ip) \<and> CHR '','' \<notin> set (IP_String L ip)
     \<and> ParseIP L (IP_String L ip) = Some ip"

definition readableUDPAddr :: "netlib \<Rightarrow> UDPAddr \<Rightarrow> bool" where
  "readableUDPAddr L addr \<longleftrightarrow>
     valueText (UDPAddr_String L addr) \<and> ResolveUDPAddr L (UDPAddr_String L addr) = Some addr"

text \<open>A duration that is a whole number of seconds.\<close>

definition wholeSeconds :: "int64 \<Rightarrow> bool" where
  "wholeSeconds duration \<longleftrightarrow> toSeconds duration * Second = duration"

text \<open>
  A peer that the text format can carry: keys of 32 bytes, at least one allowed
  network, readable networks and endpoint, a keep-alive interval of whole seconds,
  and none of the flags of \<open>wgtypes.PeerConfig\<close> that the format has no directive for.
\<close>

definition codablePeer :: "netlib \<Rightarrow> PeerConfig \<Rightarrow> bool" where
  "codablePeer L p \<longleftrightarrow>
     length (PublicKey p) = KeyLen
     \<and> (case PresharedKey p of None \<Rightarrow> True | Some k \<Rightarrow> length k = KeyLen)
     \<and> AllowedIPs p \<noteq> [] \<and> list_all (readableIPNet L) (AllowedIPs p)
     \<and> (case Endpoint p of None \<Rightarrow> True | Some addr \<Rightarrow> readableUDPAddr L addr)
     \<and> (case PersistentKeepaliveInterval p of None \<Rightarrow> True | Some d \<Rightarrow> wholeSeconds d)
     \<and> \<not> Remove p \<and> \<not> UpdateOnly p \<and> \<not> ReplaceAllowedIPs p"

text \<open>
  A configuration that the text format can carry: a private key of 32 bytes, a
  routing table that is not disabled, no hook commands, nothing in the fields the
  template does not write, readable addresses and name servers, and such peers.
\<close>

definition codableConfig :: "netlib \<Rightarrow> Config \<Rightarrow> bool" where
  "codableConfig L c \<longleftrightarrow>
     (case PrivateKey c of None \<Rightarrow> False | Some k \<Rightarrow> length k = KeyLen)
     \<and> Table c \<noteq> None
     \<and> PreUp c = [] \<and> PostUp c = [] \<and> PreDown c = [] \<and> PostDown c = []
     \<and> WgBin c = [] \<and> FirewallMark c = None \<and> \<not> ReplacePeers c
     \<and> RouteProtocol c = 0 \<and> RouteMetric c = 0 \<and> AddressLabel c = []
     \<and> list_all (readableIPNet L) (Address c)
     \<and> list_all (readableIP L) (DNS c)
     \<and> list_all (codablePeer L) (Peers c)"

section \<open>The lines of an encoded configuration\<close>

text \<open>
  The text of the template, line by line: the directives of the interface after the
  \<open>[Interface]\<close> header, and for each peer an empty line, the \<open>[Peer]\<close> header and its
  directives. A key that can stand before the \<open>=\<close> of a directive is \<open>plainKey\<close>.
\<close>

definition directiveLine :: "string \<Rightarrow> string \<Rightarrow> string" where
  "directiveLine key v = key @ '' = '' @ v"

definition optionLine :: "string \<Rightarrow> string option \<Rightarrow> string list" where
  "optionLine key v = (case v of None \<Rightarrow> [] | Some s \<Rightarrow> [directiveLine key s])"

definition interfaceLines :: "netlib \<Rightarrow> Config \<Rightarrow> Key \<Rightarrow> string list" where
  "interfaceLines L c key =
     map (\<lambda>a. directiveLine ''Address'' (IPNet_String L a)) (Address c)
     @ map (\<lambda>d. directiveLine ''DNS'' (IP_String L d)) (DNS c)
     @ [directiveLine ''PrivateKey'' (serializeKey key)]
     @ optionLine ''ListenPort'' (map_option formatInt (ListenPort c))
     @ optionLine ''MTU'' (if MTU c \<noteq> 0 then Some (formatInt (MTU c)) else None)
     @ optionLine ''Table'' (map_option formatInt (Table c))
     @ optionLine ''SaveConfig'' (if SaveConfig c then Some ''true'' else None)"

definition peerLines :: "netlib \<Rightarrow> PeerConfig \<Rightarrow> string list" where
  "peerLines L p =
     [[], ''[Peer]'',
      directiveLine ''PublicKey'' (serializeKey (PublicKey p)),
      directiveLine ''AllowedIPs'' (Join (map (IPNet_String L) (AllowedIPs p)) '', '')]
     @ optionLine ''PresharedKey'' (map_option serializeKey (PresharedKey p))
     @ optionLine ''PersistentKeepalive''
         (map_option (\<lambda>d. formatInt (toSeconds d)) (PersistentKeepaliveInterval p))
     @ optionLine ''Endpoint'' (map_option (UDPAddr_String L) (Endpoint p))"

definition plainKey :: "string \<Rightarrow> bool" where
  "plainKey key \<longleftrightarrow> trimmed key \<and> hd key \<noteq> CHR ''#'' \<and> CHR ''='' \<notin> set key"

text \<open>The state of the decoder inside the section of a peer \<open>q\<close> that was opened in state \<open>d\<close>.\<close>

definition inPeer :: "decoder \<Rightarrow> PeerConfig \<Rightarrow> decoder" where
  "inPeer d q =
     d\<lparr>state := peer, cfg := (cfg d)\<lparr>Peers := Peers (cfg d) @ [q]\<rparr>,
       peerCfg := Some (length (Peers (cfg d)))\<rparr>"

section \<open>Inputs of the examples\<close>

text \<open>
  A fragment of package \<open>net\<close>, enough for the examples: one network, one name
  server and one endpoint, each printed as Go prints it and read back from that text.
  \<open>net.ParseCIDR\<close>, \<open>net.ParseIP\<close> and \<open>net.ResolveUDPAddr\<close> give an IPv4 address in
  its 16-byte form, and \<open>net.ParseCIDR\<close> the network with a 4-byte address and mask.
\<close>

definition exampleIPNet :: IPNet where
  "exampleIPNet = \<lparr>IP = replicate 10 0 @ [255, 255, 10, 0, 0, 1], Mask = [255, 255, 255, 0]\<rparr>"

definition exampleIP :: IP where
  "exampleIP = replicate 10 0 @ [255, 255, 1, 1, 1, 1]"

definition exampleUDPAddr :: UDPAddr where
  "exampleUDPAddr =
     \<lparr>UDPAddr_IP = replicate 10 0 @ [255, 255, 192, 0, 2, 1], Port = 51820, Zone = []\<rparr>"

definition exampleNet :: netlib where
  "exampleNet =
     \<lparr>ParseCIDR = (\<lambda>s. if s = ''10.0.0.1/24''
                        then Some (IP exampleIPNet, \<lparr>IP = [10, 0, 0, 0], Mask = Mask exampleIPNet\<rparr>)
                        else None),
      ParseIP = (\<lambda>s. if s = ''1.1.1.1'' then Some exampleIP else None),
      ResolveUDPAddr = (\<lambda>s. if s = ''192.0.2.1:51820'' then Some exampleUDPAddr else None),
      IPNet_String = (\<lambda>n. if n = exampleIPNet then ''10.0.0.1/24'' else ''<nil>''),
      IP_String = (\<lambda>ip. if ip = exampleIP then ''1.1.1.1'' else ''<nil>''),
      UDPAddr_String = (\<lambda>a. if a = exampleUDPAddr then ''192.0.2.1:51820'' else ''<nil>'')\<rparr>"

text \<open>The base64 text of the key of 32 zero bytes.\<close>

definition zeroKeyText :: string where
  "zeroKeyText = ''AAAAAAAAAAAAAAAAAAAAAAAAAAAAAAAAAAAAAAAAAAA=''"

text \<open>The key of the bytes 1 to 32 and its base64 text, and a line that sets it.\<close>

definition exampleKey :: Key where
  "exampleKey = [1, 2, 3, 4, 5, 6, 7, 8, 9, 10, 11, 12, 13, 14, 15, 16,
                 17, 18, 19, 20, 21, 22, 23, 24, 25, 26, 27, 28, 29, 30, 31, 32]"

definition exampleKeyText :: string where
  "exampleKeyText = ''AQIDBAUGBwgJCgsMDQ4PEBESExQVFhcYGRobHB0eHyA=''"

definition publicKeyLine :: string where
  "publicKeyLine = '' PublicKey = AQIDBAUGBwgJCgsMDQ4PEBESExQVFhcYGRobHB0eHyA= ''"

definition addressLine :: string where
  "addressLine = ''Address = 10.0.0.1/24''"

definition presharedKeyLine :: string where
  "presharedKeyLine = ''PresharedKey = AQIDBAUGBwgJCgsMDQ4PEBESExQVFhcYGRobHB0eHyA=''"

definition onePresharedKey :: string where
  "onePresharedKey = ''[Peer]'' @ [CHR 0x0A] @ presharedKeyLine"

definition twoPresharedKeys :: string where
  "twoPresharedKeys = ''[Peer]'' @ [CHR 0x0A] @ presharedKeyLine @ [CHR 0x0A] @ presharedKeyLine"

text \<open>The text of the endpoint scenario: two peers, the second without endpoint.\<close>

definition endpointsText :: string where
  "endpointsText =
     ''[Peer]'' @ [CHR 0x0A]
     @ ''PublicKey = AQIDBAUGBwgJCgsMDQ4PEBESExQVFhcYGRobHB0eHyA='' @ [CHR 0x0A]
     @ ''Endpoint = host1:51820'' @ [CHR 0x0A]
     @ [CHR 0x0A]
     @ ''[Peer]'' @ [CHR 0x0A]
     @ ''PublicKey = AAAAAAAAAAAAAAAAAAAAAAAAAAAAAAAAAAAAAAAAAAA='' @ [CHR 0x0A]"

definition publicKeyLine1 :: string where
  "publicKeyLine1 = ''PublicKey = AQIDBAUGBwgJCgsMDQ4PEBESExQVFhcYGRobHB0eHyA=''"

definition publicKeyLine2 :: string where
  "publicKeyLine2 = ''PublicKey = AAAAAAAAAAAAAAAAAAAAAAAAAAAAAAAAAAAAAAAAAAA=''"

definition endpointLine :: string where
  "endpointLine = ''Endpoint = host1:51820''"



text \<open>
  Texts of an interface with the example key as private key: with no \<open>Table\<close> line,
  with \<open>Table = off\<close>, \<open>Table = 42\<close> and \<open>Table = 0\<close>, and with a \<open>PreUp\<close> line; the line of
  the key; and the configuration that has the key and nothing else.
\<close>

definition keyOnlyText :: string where
  "keyOnlyText =
     ''[Interface]'' @ [CHR 0x0A]
     @ ''PrivateKey = AQIDBAUGBwgJCgsMDQ4PEBESExQVFhcYGRobHB0eHyA='' @ [CHR 0x0A]"

definition tableOffText :: string where
  "tableOffText =
     ''[Interface]'' @ [CHR 0x0A]
     @ ''PrivateKey = AQIDBAUGBwgJCgsMDQ4PEBESExQVFhcYGRobHB0eHyA='' @ [CHR 0x0A]
     @ ''Table = off'' @ [CHR 0x0A]"

definition table42Text :: string where
  "table42Text =
     ''[Interface]'' @ [CHR 0x0A]
     @ ''PrivateKey = AQIDBAUGBwgJCgsMDQ4PEBESExQVFhcYGRobHB0eHyA='' @ [CHR 0x0A]
     @ ''Table = 42'' @ [CHR 0x0A]"

definition tableZeroText :: string where
  "tableZeroText =
     ''[Interface]'' @ [CHR 0x0A]
     @ ''PrivateKey = AQIDBAUGBwgJCgsMDQ4PEBESExQVFhcYGRobHB0eHyA='' @ [CHR 0x0A]
     @ ''Table = 0'' @ [CHR 0x0A]"

definition preUpText :: string where
  "preUpText =
     ''[Interface]'' @ [CHR 0x0A]
     @ ''PrivateKey = AQIDBAUGBwgJCgsMDQ4PEBESExQVFhcYGRobHB0eHyA='' @ [CHR 0x0A]
     @ ''Table = 0'' @ [CHR 0x0A]
     @ ''PreUp = [echo hello]'' @ [CHR 0x0A]"

definition privateKeyLine :: string where
  "privateKeyLine = ''PrivateKey = AQIDBAUGBwgJCgsMDQ4PEBESExQVFhcYGRobHB0eHyA=''"

definition keyConfig :: Config where
  "keyConfig = newConfig\<lparr>PrivateKey := Some exampleKey\<rparr>"

text \<open>A configuration with two peers that has every directive of the format, and its text.\<close>

definition examplePeer :: PeerConfig where
  "examplePeer =
     zeroPeerConfig\<lparr>PublicKey := exampleKey, PresharedKey := Some exampleKey,
       Endpoint := Some exampleUDPAddr, PersistentKeepaliveInterval := Some (25 * Second),
       AllowedIPs := [exampleIPNet, exampleIPNet]\<rparr>"

definition exampleConfig :: Config where
  "exampleConfig =
     newConfig\<lparr>PrivateKey := Some exampleKey, ListenPort := Some 51820,
       Peers := [examplePeer, zeroPeerConfig\<lparr>PublicKey := exampleKey, AllowedIPs := [exampleIPNet]\<rparr>],
       Address := [exampleIPNet], DNS := [exampleIP],
       MTU := 1420, SaveConfig := True\<rparr>"

definition exampleConfigText :: string where
  "exampleConfigText =
     ''[Interface]'' @ [CHR 0x0A]
     @ ''Address = 10.0.0.1/24'' @ [CHR 0x0A]
     @ ''DNS = 1.1.1.1'' @ [CHR 0x0A]
     @ ''PrivateKey = AQIDBAUGBwgJCgsMDQ4PEBESExQVFhcYGRobHB0eHyA='' @ [CHR 0x0A]
     @ ''ListenPort = 51820'' @ [CHR 0x0A]
     @ ''MTU = 1420'' @ [CHR 0x0A]
     @ ''Table = 0'' @ [CHR 0x0A]
     @ ''SaveConfig = true'' @ [CHR 0x0A]
     @ [CHR 0x0A]
     @ ''[Peer]'' @ [CHR 0x0A]
     @ ''PublicKey = AQIDBAUGBwgJCgsMDQ4PEBESExQVFhcYGRobHB0eHyA='' @ [CHR 0x0A]
     @ ''AllowedIPs = 10.0.0.1/24, 10.0.0.1/24'' @ [CHR 0x0A]
     @ ''PresharedKey = AQIDBAUGBwgJCgsMDQ4PEBESExQVFhcYGRobHB0eHyA='' @ [CHR 0x0A]
     @ ''PersistentKeepalive = 25'' @ [CHR 0x0A]
     @ ''Endpoint = 192.0.2.1:51820'' @ [CHR 0x0A]
     @ [CHR 0x0A]
     @ ''[Peer]'' @ [CHR 0x0A]
     @ ''PublicKey = AQIDBAUGBwgJCgsMDQ4PEBESExQVFhcYGRobHB0eHyA='' @ [CHR 0x0A]
     @ ''AllowedIPs = 10.0.0.1/24'' @ [CHR 0x0A]"

text \<open>A directory provider that has one file, of the given content, under every name.\<close>

definition oneFile :: "string \<Rightarrow> files" where
  "oneFile content = \<lparr>ReadDir = (\<lambda>d. None), ReadFile = (\<lambda>p. Some content)\<rparr>"

text \<open>The state of the decoder after \<open>[Peer]\<close> as the first section of a text.\<close>

definition firstPeer :: decoder where
  "firstPeer = \<lparr>cfg = newConfig\<lparr>Peers := [zeroPeerConfig]\<rparr>, state = peer, peerCfg = Some 0\<rparr>"

section \<open>Properties of the string functions\<close>

lemma Split_not_Nil: "Split s sep \<noteq> []"
  by (induction s) (auto split: list.splits)

lemma hd_Split: "hd (Split s sep) = takeWhile (\<lambda>c. c \<noteq> sep) s"
  by (induction s) (auto split: list.splits simp: Split_not_Nil)

lemma length_Split_less_2: "length (Split s sep) < 2 \<longleftrightarrow> sep \<notin> set s"
  by (induction s) (auto split: list.splits simp: Split_not_Nil)

lemma Join_Split: "Join (Split s sep) [sep] = s"
proof (induction s)
  case Nil
  show ?case by simp
next
  case (Cons c cs)
  show ?case
  proof (cases "c = sep")
    case True
    with Cons show ?thesis
      by (cases "Split cs sep") (simp_all add: Split_not_Nil)
  next
    case False
    obtain p ps where "Split cs sep = p # ps"
      using Split_not_Nil by (cases "Split cs sep") auto
    with Cons False show ?thesis
      by (cases ps) auto
  qed
qed

lemma Join_tl_Split:
  "sep \<in> set s \<Longrightarrow> Join (tl (Split s sep)) [sep] = tl (dropWhile (\<lambda>c. c \<noteq> sep) s)"
proof (induction s)
  case Nil
  then show ?case by simp
next
  case (Cons c cs)
  show ?case
  proof (cases "c = sep")
    case True
    then show ?thesis by (simp add: Join_Split)
  next
    case False
    obtain p ps where "Split cs sep = p # ps"
      using Split_not_Nil by (cases "Split cs sep") auto
    with Cons False show ?thesis by auto
  qed
qed

text \<open>Strings with no white space at their ends are left as they are.\<close>

lemma leadingRune_0:
  assumes "s \<noteq> []" and "hd s \<notin> set (map hd rs)" and "[] \<notin> set rs"
  shows "leadingRune rs s = 0"
  using assms
proof (induction rs)
  case Nil
  then show ?case by simp
next
  case (Cons r rs)
  from Cons.prems have "\<not> prefix r s"
    by (cases r; cases s) auto
  with Cons show ?case by simp
qed

lemma TrimLeftRunes_id: "leadingRune rs s = 0 \<Longrightarrow> TrimLeftRunes rs s = s"
  by (simp add: TrimLeftRunes.simps)

lemma spaceRunes_nonempty: "[] \<notin> set spaceRunes" "[] \<notin> set (map rev spaceRunes)"
  by (simp_all add: spaceRunes_def)

lemma hd_rev_spaceRunes: "map hd (map rev spaceRunes) = map last spaceRunes"
  by (simp add: spaceRunes_def)

lemma leadingRune_trimmed:
  assumes "trimmed s"
  shows "leadingRune spaceRunes s = 0" and "leadingRune (map rev spaceRunes) (rev s) = 0"
proof -
  from assms have s: "s \<noteq> []" and h: "hd s \<notin> set (map hd spaceRunes)"
    and l: "last s \<notin> set (map last spaceRunes)"
    by (simp_all add: trimmed_def)
  from s h spaceRunes_nonempty(1) show "leadingRune spaceRunes s = 0"
    by (rule leadingRune_0)
  from s have rs: "rev s \<noteq> []" by simp
  from s l have "hd (rev s) \<notin> set (map hd (map rev spaceRunes))"
    by (simp only: hd_rev hd_rev_spaceRunes not_False_eq_True)
  with rs show "leadingRune (map rev spaceRunes) (rev s) = 0"
    using spaceRunes_nonempty(2) by (rule leadingRune_0)
qed

lemma TrimSpace_trimmed: "trimmed s \<Longrightarrow> TrimSpace s = s"
  by (simp only: TrimSpace_def TrimLeftRunes_id leadingRune_trimmed rev_rev_ident)

lemma leadingRune_space: "leadingRune spaceRunes (CHR '' '' # s) = 1"
  by (simp add: spaceRunes_def)

lemma leadingRune_rev_space: "leadingRune (map rev spaceRunes) (CHR '' '' # s) = 1"
  by (simp add: spaceRunes_def)

lemma TrimLeftRunes_drop1:
  "leadingRune rs (c # s) = 1 \<Longrightarrow> TrimLeftRunes rs (c # s) = TrimLeftRunes rs s"
  by (subst TrimLeftRunes.simps) simp

lemma TrimLeftRunes_space: "TrimLeftRunes spaceRunes (CHR '' '' # s) = TrimLeftRunes spaceRunes s"
  using leadingRune_space by (rule TrimLeftRunes_drop1)

lemma TrimLeftRunes_rev_space:
  "TrimLeftRunes (map rev spaceRunes) (CHR '' '' # s) = TrimLeftRunes (map rev spaceRunes) s"
  using leadingRune_rev_space by (rule TrimLeftRunes_drop1)

lemma TrimSpace_space_trimmed: "trimmed s \<Longrightarrow> TrimSpace (CHR '' '' # s) = s"
  using TrimSpace_trimmed [of s] by (simp only: TrimSpace_def TrimLeftRunes_space)

lemma TrimSpace_trimmed_space: "trimmed s \<Longrightarrow> TrimSpace (s @ '' '') = s"
proof -
  assume t: "trimmed s"
  then have "s @ '' '' \<noteq> []" and "hd (s @ '' '') \<notin> set (map hd spaceRunes)"
    by (simp_all add: trimmed_def)
  then have l: "leadingRune spaceRunes (s @ '' '') = 0"
    using spaceRunes_nonempty(1) by (rule leadingRune_0)
  have "TrimSpace (s @ '' '') = rev (TrimLeftRunes (map rev spaceRunes) (rev (s @ '' '')))"
    by (simp only: TrimSpace_def TrimLeftRunes_id [OF l])
  also have "\<dots> = rev (TrimLeftRunes (map rev spaceRunes) (rev s))"
    by (simp only: rev_append rev.simps append_Nil append_Cons TrimLeftRunes_rev_space)
  also have "\<dots> = s"
    by (simp only: TrimLeftRunes_id leadingRune_trimmed(2) [OF t] rev_rev_ident)
  finally show ?thesis .
qed

lemma trimmed_append: "trimmed a \<Longrightarrow> trimmed b \<Longrightarrow> trimmed (a @ x @ b)"
  by (simp add: trimmed_def)

lemma spaceRunes_edges:
  "list_all (\<lambda>c. \<not> printable c) (map hd spaceRunes)"
  "list_all (\<lambda>c. \<not> printable c) (map last spaceRunes)"
  by (simp_all add: spaceRunes_def printable_def)

lemma printable_edges:
  assumes "printable c"
  shows "c \<notin> set (map hd spaceRunes)" and "c \<notin> set (map last spaceRunes)"
  using assms spaceRunes_edges unfolding list_all_iff by blast+

lemma printable_neq:
  assumes "printable c"
  shows "c \<noteq> CHR 0x0A" and "c \<noteq> CHR 0x0D" and "c \<noteq> CHR '' ''"
proof -
  have "\<not> printable (CHR 0x0A)" "\<not> printable (CHR 0x0D)" "\<not> printable (CHR '' '')"
    by (simp_all add: printable_def)
  with assms show "c \<noteq> CHR 0x0A" and "c \<noteq> CHR 0x0D" and "c \<noteq> CHR '' ''"
    by blast+
qed

lemma printable_digits: "list_all printable digits"
  by (simp add: digits_def printable_def)

lemma printable_encodeStd: "list_all printable encodeStd" "printable padChar"
  by (simp_all add: encodeStd_def padChar_def printable_def)

lemma trimmed_printable:
  assumes "s \<noteq> []" and "list_all printable s"
  shows "trimmed s"
proof -
  from assms have "printable (hd s)" "printable (last s)"
    by (simp_all add: list_all_iff)
  with assms(1) show ?thesis
    unfolding trimmed_def using printable_edges by blast
qed

lemma newline_printable: "list_all printable s \<Longrightarrow> CHR 0x0A \<notin> set s"
  unfolding list_all_iff using printable_neq(1) by blast

text \<open>The trimmed form of the lines the examples use.\<close>

lemma TrimSpace_Interface: "TrimSpace ''[Interface]'' = ''[Interface]''"
  by (simp add: TrimSpace_def spaceRunes_def TrimLeftRunes.simps)

lemma TrimSpace_Peer: "TrimSpace ''[Peer]'' = ''[Peer]''"
  by (simp add: TrimSpace_def spaceRunes_def TrimLeftRunes.simps)

lemma TrimSpace_foo: "TrimSpace ''foo'' = ''foo''"
  by (simp add: TrimSpace_def spaceRunes_def TrimLeftRunes.simps)

section \<open>Keys\<close>

lemma DecodeString_AQID: "DecodeString ''AQID'' = Some [1, 2, 3]"
  by (simp add: DecodeString_def decodeMap_def encodeStd_def padChar_def)

text \<open>
  C4. \<open>ParseKey\<close> is to return an error when the decoded byte count is not 32. On
  \<open>AQID\<close>, valid base64 of the three bytes 1, 2, 3, it returns a key and no error: the
  three bytes followed by 29 zero bytes. \<open>wgtypes.ParseKey\<close>, which the endpoint
  extractor calls, refuses the same text.
\<close>

theorem ParseKey_accepts_three_bytes:
  "DecodeString ''AQID'' = Some [1, 2, 3]
   \<and> ParseKey ''AQID'' = Inr ([1, 2, 3] @ replicate 29 0)
   \<and> wgtypes_ParseKey ''AQID'' = None"
  by (simp add: DecodeString_AQID ParseKey_def wgtypes_ParseKey_def copyKey_def KeyLen_def)

section \<open>The line number of a missing \<open>=\<close>\<close>

text \<open>
  C5. A line that is not blank, not a comment and not a section header and has no \<open>=\<close>
  is to fail with its line number counted from 1. In both loops the number of the
  message is the index of the line counted from 0: for \<open>foo\<close> as the second line it
  is 1, in \<open>UnmarshalText\<close> and in \<open>GetUnresolvedEndpoints\<close> alike.
\<close>

theorem missing_equals_number_is_zero_based:
  "UnmarshalText L (''[Interface]'' @ [CHR 0x0A] @ ''foo'') = Inl (MissingEquals 1)
   \<and> GetUnresolvedEndpoints (oneFile (''[Peer]'' @ [CHR 0x0A] @ ''foo'')) ''wg0''
       = Inl (MissingEquals 1)"
  by (simp add: UnmarshalText_def decodeLine_def GetUnresolvedEndpoints_def scanLine_def
      oneFile_def scanStart_def decodeStart_def TrimSpace_Interface TrimSpace_Peer TrimSpace_foo)

lemma DecodeString_exampleKeyText: "DecodeString exampleKeyText = Some exampleKey"
  by (simp add: exampleKeyText_def exampleKey_def DecodeString_def decodeMap_def encodeStd_def padChar_def)

lemma EncodeToString_exampleKey: "EncodeToString exampleKey = exampleKeyText"
  by (simp add: exampleKeyText_def exampleKey_def encodeStd_def padChar_def)

section \<open>Key and value of a line\<close>

text \<open>
  C8. On a line that is not blank, not a comment and not a section header and has a
  \<open>=\<close>, the decoder hands to the parser of the section the trimmed text before the
  first \<open>=\<close> as the key and the trimmed text after the first \<open>=\<close> as the value:
  splitting at every \<open>=\<close> and joining all parts but the first with \<open>=\<close> gives back
  everything after the first one, so the \<open>=\<close> signs of the value, such as base64
  padding, are kept.
\<close>

theorem value_is_text_after_first_equals:
  assumes "TrimSpace line \<noteq> []" and "hd (TrimSpace line) \<noteq> CHR ''#''"
    and "TrimSpace line \<noteq> ''[Interface]''" and "TrimSpace line \<noteq> ''[Peer]''"
    and "CHR ''='' \<in> set (TrimSpace line)"
  shows "decodeLine L no line d =
           dispatch L no d
             (TrimSpace (takeWhile (\<lambda>c. c \<noteq> CHR ''='') (TrimSpace line)))
             (TrimSpace (tl (dropWhile (\<lambda>c. c \<noteq> CHR ''='') (TrimSpace line))))"
  using assms
  by (simp add: decodeLine_def Let_def length_Split_less_2 hd_Split Join_tl_Split)

lemma TrimSpace_publicKeyLine:
  "TrimSpace publicKeyLine = ''PublicKey = AQIDBAUGBwgJCgsMDQ4PEBESExQVFhcYGRobHB0eHyA=''"
  by (simp add: TrimSpace_def spaceRunes_def TrimLeftRunes.simps publicKeyLine_def)

lemma TrimSpace_PublicKey: "TrimSpace ''PublicKey '' = ''PublicKey''"
  by (simp add: TrimSpace_def spaceRunes_def TrimLeftRunes.simps)

lemma TrimSpace_exampleKeyText:
  "TrimSpace '' AQIDBAUGBwgJCgsMDQ4PEBESExQVFhcYGRobHB0eHyA='' = exampleKeyText"
  by (simp add: TrimSpace_def spaceRunes_def TrimLeftRunes.simps exampleKeyText_def)

theorem value_is_text_after_first_equals_witness:
  "TrimSpace publicKeyLine \<noteq> []
   \<and> hd (TrimSpace publicKeyLine) \<noteq> CHR ''#''
   \<and> TrimSpace publicKeyLine \<noteq> ''[Interface]''
   \<and> TrimSpace publicKeyLine \<noteq> ''[Peer]''
   \<and> CHR ''='' \<in> set (TrimSpace publicKeyLine)
   \<and> decodeLine exampleNet 1 publicKeyLine firstPeer
       = dispatch exampleNet 1 firstPeer ''PublicKey'' exampleKeyText
   \<and> dispatch exampleNet 1 firstPeer ''PublicKey'' exampleKeyText
       = Inr (firstPeer\<lparr>cfg := newConfig\<lparr>Peers := [zeroPeerConfig\<lparr>PublicKey := exampleKey\<rparr>]\<rparr>\<rparr>)"
proof -
  have h: "TrimSpace publicKeyLine \<noteq> []" "hd (TrimSpace publicKeyLine) \<noteq> CHR ''#''"
    "TrimSpace publicKeyLine \<noteq> ''[Interface]''" "TrimSpace publicKeyLine \<noteq> ''[Peer]''"
    "CHR ''='' \<in> set (TrimSpace publicKeyLine)"
    by (simp_all add: TrimSpace_publicKeyLine)
  have k: "takeWhile (\<lambda>c. c \<noteq> CHR ''='') (TrimSpace publicKeyLine) = ''PublicKey ''"
    "tl (dropWhile (\<lambda>c. c \<noteq> CHR ''='') (TrimSpace publicKeyLine))
       = '' AQIDBAUGBwgJCgsMDQ4PEBESExQVFhcYGRobHB0eHyA=''"
    by (simp_all add: TrimSpace_publicKeyLine)
  have e: "dispatch exampleNet 1 firstPeer ''PublicKey'' exampleKeyText
       = Inr (firstPeer\<lparr>cfg := newConfig\<lparr>Peers := [zeroPeerConfig\<lparr>PublicKey := exampleKey\<rparr>]\<rparr>\<rparr>)"
    by (simp add: dispatch_def firstPeer_def parsePeerLine_def ParseKey_def
        DecodeString_exampleKeyText copyKey_def KeyLen_def exampleKey_def)
  from value_is_text_after_first_equals [OF h, of exampleNet 1 firstPeer] h e
  show ?thesis
    unfolding k TrimSpace_PublicKey TrimSpace_exampleKeyText by simp
qed

section \<open>The endpoint extractor and the sections\<close>

lemma scanLine_skip:
  assumes "scanState s \<noteq> peer" and "TrimSpace l \<noteq> ''[Interface]''" and "TrimSpace l \<noteq> ''[Peer]''"
  shows "scanLine no l s = Inr s"
  using assms by (simp add: scanLine_def Let_def)

lemma scanLines_skip:
  assumes "scanState s \<noteq> peer"
    and "\<forall>l \<in> set ls. TrimSpace l \<noteq> ''[Interface]'' \<and> TrimSpace l \<noteq> ''[Peer]''"
  shows "scanLines no (ls @ rest) s = scanLines (no + length ls) rest s"
  using assms by (induction ls arbitrary: no) (simp_all add: scanLine_skip)

lemma scanLines_append:
  "scanLines no (xs @ ys) s =
     (case scanLines no xs s of Inl err \<Rightarrow> Inl err | Inr s' \<Rightarrow> scanLines (no + length xs) ys s')"
  by (induction xs arbitrary: no s) (auto split: sum.splits)

lemma scanLine_missing:
  assumes "scanState s = peer" and "TrimSpace l \<noteq> []" and "hd (TrimSpace l) \<noteq> CHR ''#''"
    and "TrimSpace l \<noteq> ''[Interface]''" and "TrimSpace l \<noteq> ''[Peer]''"
    and "CHR ''='' \<notin> set (TrimSpace l)"
  shows "scanLine no l s = Inl (MissingEquals no)"
  using assms by (simp add: scanLine_def Let_def length_Split_less_2)

text \<open>
  C10. Outside a \<open>[Peer]\<close> section \<open>GetUnresolvedEndpoints\<close> passes over every line that is
  not a section header, whatever it holds: the loop goes on to the lines after them
  with its variables unchanged. Inside a \<open>[Peer]\<close> section a line that is not blank, not
  a comment and not a header and has no \<open>=\<close> ends the whole extraction with the
  missing-\<open>=\<close> error (whose number is the index of the line from 0).
\<close>

theorem extractor_reads_peer_sections_only:
  "(scanState s \<noteq> peer
      \<and> (\<forall>l \<in> set ls. TrimSpace l \<noteq> ''[Interface]'' \<and> TrimSpace l \<noteq> ''[Peer]'')
    \<longrightarrow> scanLines no (ls @ rest) s = scanLines (no + length ls) rest s)
   \<and> (ReadFile F (''/etc/wireguard/'' @ name @ ''.conf'') = Some b
      \<and> Split b CHR 0x0A = pre @ l # post
      \<and> scanLines 0 pre scanStart = Inr s'
      \<and> scanState s' = peer
      \<and> TrimSpace l \<noteq> [] \<and> hd (TrimSpace l) \<noteq> CHR ''#''
      \<and> TrimSpace l \<noteq> ''[Interface]'' \<and> TrimSpace l \<noteq> ''[Peer]''
      \<and> CHR ''='' \<notin> set (TrimSpace l)
    \<longrightarrow> GetUnresolvedEndpoints F name = Inl (MissingEquals (length pre)))"
proof (intro conjI impI)
  assume "scanState s \<noteq> peer
      \<and> (\<forall>l \<in> set ls. TrimSpace l \<noteq> ''[Interface]'' \<and> TrimSpace l \<noteq> ''[Peer]'')"
  then show "scanLines no (ls @ rest) s = scanLines (no + length ls) rest s"
    by (simp add: scanLines_skip)
next
  assume a: "ReadFile F (''/etc/wireguard/'' @ name @ ''.conf'') = Some b
      \<and> Split b CHR 0x0A = pre @ l # post
      \<and> scanLines 0 pre scanStart = Inr s'
      \<and> scanState s' = peer
      \<and> TrimSpace l \<noteq> [] \<and> hd (TrimSpace l) \<noteq> CHR ''#''
      \<and> TrimSpace l \<noteq> ''[Interface]'' \<and> TrimSpace l \<noteq> ''[Peer]''
      \<and> CHR ''='' \<notin> set (TrimSpace l)"
  then have "scanLine (length pre) l s' = Inl (MissingEquals (length pre))"
    by (simp add: scanLine_missing)
  with a have "scanLines 0 (pre @ l # post) scanStart = Inl (MissingEquals (length pre))"
    by (simp add: scanLines_append)
  with a show "GetUnresolvedEndpoints F name = Inl (MissingEquals (length pre))"
    by (simp add: GetUnresolvedEndpoints_def)
qed

lemma TrimSpace_addressLine: "TrimSpace addressLine = ''Address = 10.0.0.1/24''"
  by (simp add: TrimSpace_def spaceRunes_def TrimLeftRunes.simps addressLine_def)

theorem extractor_reads_peer_sections_only_witness:
  "scanState (scanStart\<lparr>scanState := inter\<rparr>) \<noteq> peer
   \<and> TrimSpace addressLine \<noteq> ''[Interface]'' \<and> TrimSpace addressLine \<noteq> ''[Peer]''
   \<and> TrimSpace ''foo'' \<noteq> ''[Interface]'' \<and> TrimSpace ''foo'' \<noteq> ''[Peer]''
   \<and> scanLines 1 [addressLine, ''foo''] (scanStart\<lparr>scanState := inter\<rparr>)
       = Inr (scanStart\<lparr>scanState := inter\<rparr>)
   \<and> ReadFile (oneFile (''[Peer]'' @ [CHR 0x0A] @ ''foo'')) (''/etc/wireguard/'' @ ''wg0'' @ ''.conf'')
       = Some (''[Peer]'' @ [CHR 0x0A] @ ''foo'')
   \<and> Split (''[Peer]'' @ [CHR 0x0A] @ ''foo'') CHR 0x0A = [''[Peer]''] @ ''foo'' # []
   \<and> scanLines 0 [''[Peer]''] scanStart = Inr (scanStart\<lparr>scanState := peer\<rparr>)
   \<and> scanState (scanStart\<lparr>scanState := peer\<rparr>) = peer
   \<and> TrimSpace ''foo'' \<noteq> [] \<and> hd (TrimSpace ''foo'') \<noteq> CHR ''#''
   \<and> CHR ''='' \<notin> set (TrimSpace ''foo'')
   \<and> GetUnresolvedEndpoints (oneFile (''[Peer]'' @ [CHR 0x0A] @ ''foo'')) ''wg0''
       = Inl (MissingEquals 1)"
proof -
  let ?s = "scanStart\<lparr>scanState := inter\<rparr>"
  let ?b = "''[Peer]'' @ [CHR 0x0A] @ ''foo''"
  have h1: "scanState ?s \<noteq> peer
      \<and> (\<forall>l \<in> set [addressLine, ''foo'']. TrimSpace l \<noteq> ''[Interface]'' \<and> TrimSpace l \<noteq> ''[Peer]'')"
    by (simp add: TrimSpace_addressLine TrimSpace_foo)
  have h2: "ReadFile (oneFile ?b) (''/etc/wireguard/'' @ ''wg0'' @ ''.conf'') = Some ?b
      \<and> Split ?b CHR 0x0A = [''[Peer]''] @ ''foo'' # []
      \<and> scanLines 0 [''[Peer]''] scanStart = Inr (scanStart\<lparr>scanState := peer\<rparr>)
      \<and> scanState (scanStart\<lparr>scanState := peer\<rparr>) = peer
      \<and> TrimSpace ''foo'' \<noteq> [] \<and> hd (TrimSpace ''foo'') \<noteq> CHR ''#''
      \<and> TrimSpace ''foo'' \<noteq> ''[Interface]'' \<and> TrimSpace ''foo'' \<noteq> ''[Peer]''
      \<and> CHR ''='' \<notin> set (TrimSpace ''foo'')"
    by (simp add: oneFile_def scanLine_def TrimSpace_Peer TrimSpace_foo scanStart_def)
  have c1: "scanLines 1 ([addressLine, ''foo''] @ []) ?s = scanLines (1 + length [addressLine, ''foo'']) [] ?s"
    using extractor_reads_peer_sections_only
      [of ?s "[addressLine, ''foo'']" 1 "[]" "oneFile ?b" "''wg0''" ?b "[''[Peer]'']" "''foo''" "[]"
          "scanStart\<lparr>scanState := peer\<rparr>"] h1
    by blast
  have c2: "GetUnresolvedEndpoints (oneFile ?b) ''wg0'' = Inl (MissingEquals (length [''[Peer]'']))"
    using extractor_reads_peer_sections_only
      [of ?s "[addressLine, ''foo'']" 1 "[]" "oneFile ?b" "''wg0''" ?b "[''[Peer]'']" "''foo''" "[]"
          "scanStart\<lparr>scanState := peer\<rparr>"] h2
    by blast
  from h1 h2 c1 c2 show ?thesis by simp
qed

section \<open>The preshared key of a peer\<close>

lemma decodeLines_append:
  "decodeLines L no (xs @ ys) d =
     (case decodeLines L no xs d of Inl err \<Rightarrow> Inl err | Inr d' \<Rightarrow> decodeLines L (no + length xs) ys d')"
  by (induction xs arbitrary: no d) (auto split: sum.splits)

lemma decodeLine_directive:
  "isDirective line \<Longrightarrow> decodeLine L no line d = dispatch L no d (keyOf line) (valueOf line)"
  by (auto simp add: isDirective_def keyOf_def valueOf_def decodeLine_def Let_def
      length_Split_less_2 hd_Split Join_tl_Split)

lemma parseInterfaceLine_Peers:
  "parseInterfaceLine L c lhs rhs = Inr c' \<Longrightarrow> Peers c' = Peers c"
  by (auto simp: parseInterfaceLine_def split: if_splits option.splits sum.splits)

lemma parseInterfaceLine_PresharedKey:
  "\<exists>err. parseInterfaceLine L c ''PresharedKey'' rhs = Inl err"
  by (simp add: parseInterfaceLine_def)

lemma parsePeerLine_PresharedKey_kept:
  "parsePeerLine L p lhs rhs = Inr p' \<Longrightarrow> PresharedKey p \<noteq> None \<Longrightarrow> PresharedKey p' \<noteq> None"
  by (auto simp: parsePeerLine_def split: if_splits option.splits sum.splits)

lemma parsePeerLine_PresharedKey_set:
  "parsePeerLine L p ''PresharedKey'' rhs = Inr p' \<Longrightarrow> PresharedKey p' \<noteq> None"
  by (auto simp: parsePeerLine_def split: if_splits option.splits sum.splits)

lemma parsePeerLine_PresharedKey_twice:
  "PresharedKey p \<noteq> None \<Longrightarrow> \<exists>err. parsePeerLine L p ''PresharedKey'' rhs = Inl err"
  by (auto simp: parsePeerLine_def split: if_splits option.splits sum.splits)

lemma dispatch_cases:
  assumes "dispatch L no d lhs rhs = Inr d'"
  obtains (inter) c where "state d = inter" "parseInterfaceLine L (cfg d) lhs rhs = Inr c" "d' = d\<lparr>cfg := c\<rparr>"
  | (peer) i p where "state d = peer" "peerCfg d = Some i"
      "parsePeerLine L (Peers (cfg d) ! i) lhs rhs = Inr p"
      "d' = d\<lparr>cfg := (cfg d)\<lparr>Peers := (Peers (cfg d))[i := p]\<rparr>\<rparr>"
  using assms
  by (auto simp: dispatch_def split: parseState.splits sum.splits option.splits)

lemma decodeLine_cases:
  assumes "decodeLine L no line d = Inr d'"
  obtains (skip) "d' = d"
  | (interface) "TrimSpace line = ''[Interface]''" "d' = d\<lparr>state := inter\<rparr>"
  | (peer) "TrimSpace line = ''[Peer]''"
      "d' = d\<lparr>state := peer, cfg := (cfg d)\<lparr>Peers := Peers (cfg d) @ [zeroPeerConfig]\<rparr>,
               peerCfg := Some (length (Peers (cfg d)))\<rparr>"
  | (directive) "isDirective line" "TrimSpace line \<noteq> ''[Peer]''" "dispatch L no d (keyOf line) (valueOf line) = Inr d'"
proof -
  show ?thesis
  proof (cases "TrimSpace line = [] \<or> hd (TrimSpace line) = CHR ''#''")
    case True
    with assms have "d' = d" by (auto simp: decodeLine_def Let_def)
    then show ?thesis by (rule skip)
  next
    case nb: False
    show ?thesis
    proof (cases "TrimSpace line = ''[Interface]''")
      case True
      with assms nb have "d' = d\<lparr>state := inter\<rparr>" by (auto simp: decodeLine_def Let_def)
      with True show ?thesis by (rule interface)
    next
      case ni: False
      show ?thesis
      proof (cases "TrimSpace line = ''[Peer]''")
        case True
        with assms nb ni have "d' = d\<lparr>state := peer, cfg := (cfg d)\<lparr>Peers := Peers (cfg d) @ [zeroPeerConfig]\<rparr>,
               peerCfg := Some (length (Peers (cfg d)))\<rparr>" by (auto simp: decodeLine_def Let_def)
        with True show ?thesis by (rule peer)
      next
        case np: False
        from assms nb ni np have eq: "CHR ''='' \<in> set (TrimSpace line)"
          by (auto simp: decodeLine_def Let_def length_Split_less_2 split: if_splits)
        with nb have dir: "isDirective line" by (simp add: isDirective_def)
        from assms decodeLine_directive [OF dir]
        have "dispatch L no d (keyOf line) (valueOf line) = Inr d'" by simp
        with dir np show ?thesis by (rule directive)
      qed
    qed
  qed
qed

lemma peerBound_step:
  assumes "decodeLine L no line d = Inr d'" and "peerBound d"
  shows "peerBound d'"
  using assms(1)
proof (cases rule: decodeLine_cases)
  case skip
  with assms show ?thesis by simp
next
  case interface
  then show ?thesis by (simp add: peerBound_def)
next
  case peer
  then show ?thesis by (simp add: peerBound_def)
next
  case directive
  from directive(3) show ?thesis
  proof (cases rule: dispatch_cases)
    case (inter c)
    then show ?thesis by (simp add: peerBound_def)
  next
    case (peer i p)
    with assms(2) show ?thesis by (auto simp: peerBound_def)
  qed
qed

lemma peerBound_steps:
  "decodeLines L no ls d = Inr d' \<Longrightarrow> peerBound d \<Longrightarrow> peerBound d'"
proof (induction ls arbitrary: no d)
  case Nil
  then show ?case by simp
next
  case (Cons l ls)
  then show ?case
    by (auto split: sum.splits dest: peerBound_step)
qed

lemma presharedSet_step:
  assumes "decodeLine L no line d = Inr d'" and "presharedSet d" and "TrimSpace line \<noteq> ''[Peer]''"
  shows "presharedSet d'"
  using assms(1)
proof (cases rule: decodeLine_cases)
  case skip
  with assms show ?thesis by simp
next
  case interface
  then show ?thesis by (simp add: presharedSet_def)
next
  case peer
  with assms(3) show ?thesis by simp
next
  case directive
  from directive(3) show ?thesis
  proof (cases rule: dispatch_cases)
    case (inter c)
    then show ?thesis by (simp add: presharedSet_def)
  next
    case (peer i p)
    with assms(2) show ?thesis
      by (auto simp: presharedSet_def dest: parsePeerLine_PresharedKey_kept)
  qed
qed

lemma presharedSet_steps:
  "decodeLines L no ls d = Inr d' \<Longrightarrow> presharedSet d
   \<Longrightarrow> \<forall>l \<in> set ls. TrimSpace l \<noteq> ''[Peer]'' \<Longrightarrow> presharedSet d'"
proof (induction ls arbitrary: no d)
  case Nil
  then show ?case by simp
next
  case (Cons l ls)
  then show ?case
    by (auto split: sum.splits dest: presharedSet_step)
qed

lemma first_PresharedKey:
  assumes "decodeLine L no line d = Inr d'" and "peerBound d"
    and "isDirective line" and "keyOf line = ''PresharedKey''"
  shows "presharedSet d'"
proof -
  from assms(1,3,4) have "dispatch L no d ''PresharedKey'' (valueOf line) = Inr d'"
    by (simp add: decodeLine_directive)
  then show ?thesis
  proof (cases rule: dispatch_cases)
    case (inter c)
    with parseInterfaceLine_PresharedKey [of L "cfg d" "valueOf line"] show ?thesis by auto
  next
    case (peer i p)
    with assms(2) show ?thesis
      by (auto simp: presharedSet_def peerBound_def dest: parsePeerLine_PresharedKey_set)
  qed
qed

lemma second_PresharedKey:
  assumes "presharedSet d" and "isDirective line" and "keyOf line = ''PresharedKey''"
  shows "\<exists>err. decodeLine L no line d = Inl err"
proof (cases "decodeLine L no line d")
  case (Inl err)
  then show ?thesis by blast
next
  case (Inr d')
  with assms(2,3) have "dispatch L no d ''PresharedKey'' (valueOf line) = Inr d'"
    by (simp add: decodeLine_directive)
  then show ?thesis
  proof (cases rule: dispatch_cases)
    case (inter c)
    with parseInterfaceLine_PresharedKey [of L "cfg d" "valueOf line"] show ?thesis by auto
  next
    case (peer i p)
    with assms(1) parsePeerLine_PresharedKey_twice [of "Peers (cfg d) ! i" L "valueOf line"]
    show ?thesis by (auto simp: presharedSet_def)
  qed
qed

lemma two_PresharedKey_lines:
  assumes "peerBound d"
    and "isDirective l1" and "keyOf l1 = ''PresharedKey''"
    and "isDirective l2" and "keyOf l2 = ''PresharedKey''"
    and "\<forall>l \<in> set mid. TrimSpace l \<noteq> ''[Peer]''"
  shows "\<exists>err. decodeLines L no (pre @ l1 # mid @ l2 # post) d = Inl err"
proof (cases "decodeLines L no pre d")
  case (Inl err)
  then show ?thesis by (simp add: decodeLines_append)
next
  case (Inr d1)
  from Inr assms(1) have b1: "peerBound d1" by (rule peerBound_steps)
  show ?thesis
  proof (cases "decodeLine L (no + length pre) l1 d1")
    case (Inl err)
    with Inr show ?thesis by (simp add: decodeLines_append)
  next
    case d2: (Inr d2)
    from d2 b1 assms(2,3) have s2: "presharedSet d2" by (rule first_PresharedKey)
    show ?thesis
    proof (cases "decodeLines L (Suc (no + length pre)) mid d2")
      case (Inl err)
      with Inr d2 show ?thesis by (simp add: decodeLines_append)
    next
      case d3: (Inr d3)
      from d3 s2 assms(6) have "presharedSet d3" by (rule presharedSet_steps)
      from second_PresharedKey [OF this assms(4,5)]
      obtain err where "decodeLine L (Suc (no + length pre) + length mid) l2 d3 = Inl err"
        by blast
      with Inr d2 d3 show ?thesis by (simp add: decodeLines_append)
    qed
  qed
qed

text \<open>
  C6. A text in which two \<open>PresharedKey\<close> lines follow each other with no \<open>[Peer]\<close> header
  between them (so: two such lines in one peer block) is never decoded: the decoder
  returns an error, whatever the two values are. And a \<open>PresharedKey\<close> line whose value
  is valid base64, read in a peer block whose preshared key is not set yet, sets the
  key of that peer to the decoded bytes; as the last line of a text it makes the
  decoding succeed with that configuration.
\<close>

theorem preshared_key_at_most_once:
  "(Split body CHR 0x0A = pre @ la # mid @ lb # post
      \<and> isDirective la \<and> keyOf la = ''PresharedKey''
      \<and> isDirective lb \<and> keyOf lb = ''PresharedKey''
      \<and> (\<forall>l \<in> set mid. TrimSpace l \<noteq> ''[Peer]'')
    \<longrightarrow> (\<exists>err. UnmarshalText L body = Inl err))
   \<and> (Split t CHR 0x0A = before @ [l]
      \<and> decodeLines L 0 before decodeStart = Inr d
      \<and> state d = peer \<and> peerCfg d = Some i
      \<and> PresharedKey (Peers (cfg d) ! i) = None
      \<and> isDirective l \<and> keyOf l = ''PresharedKey''
      \<and> DecodeString (valueOf l) = Some bs
    \<longrightarrow> i < length (Peers (cfg d))
        \<and> UnmarshalText L t =
            Inr ((cfg d)\<lparr>Peers := (Peers (cfg d))
                   [i := (Peers (cfg d) ! i)\<lparr>PresharedKey := Some (copyKey bs)\<rparr>]\<rparr>))"
proof (intro conjI impI)
  assume a: "Split body CHR 0x0A = pre @ la # mid @ lb # post
      \<and> isDirective la \<and> keyOf la = ''PresharedKey''
      \<and> isDirective lb \<and> keyOf lb = ''PresharedKey''
      \<and> (\<forall>l \<in> set mid. TrimSpace l \<noteq> ''[Peer]'')"
  have "peerBound decodeStart" by (simp add: peerBound_def decodeStart_def)
  with a have "\<exists>err. decodeLines L 0 (pre @ la # mid @ lb # post) decodeStart = Inl err"
    by (intro two_PresharedKey_lines) simp_all
  with a show "\<exists>err. UnmarshalText L body = Inl err"
    by (auto simp: UnmarshalText_def)
next
  assume a: "Split t CHR 0x0A = before @ [l]
      \<and> decodeLines L 0 before decodeStart = Inr d
      \<and> state d = peer \<and> peerCfg d = Some i
      \<and> PresharedKey (Peers (cfg d) ! i) = None
      \<and> isDirective l \<and> keyOf l = ''PresharedKey''
      \<and> DecodeString (valueOf l) = Some bs"
  have "peerBound decodeStart" by (simp add: peerBound_def decodeStart_def)
  with a have "peerBound d" by (blast intro: peerBound_steps)
  with a show "i < length (Peers (cfg d))" by (auto simp: peerBound_def)
next
  assume a: "Split t CHR 0x0A = before @ [l]
      \<and> decodeLines L 0 before decodeStart = Inr d
      \<and> state d = peer \<and> peerCfg d = Some i
      \<and> PresharedKey (Peers (cfg d) ! i) = None
      \<and> isDirective l \<and> keyOf l = ''PresharedKey''
      \<and> DecodeString (valueOf l) = Some bs"
  then have "decodeLine L (length before) l d =
      Inr (d\<lparr>cfg := (cfg d)\<lparr>Peers := (Peers (cfg d))
                   [i := (Peers (cfg d) ! i)\<lparr>PresharedKey := Some (copyKey bs)\<rparr>]\<rparr>\<rparr>)"
    by (simp add: decodeLine_directive dispatch_def parsePeerLine_def ParseKey_def)
  with a show "UnmarshalText L t =
            Inr ((cfg d)\<lparr>Peers := (Peers (cfg d))
                   [i := (Peers (cfg d) ! i)\<lparr>PresharedKey := Some (copyKey bs)\<rparr>]\<rparr>)"
    by (simp add: UnmarshalText_def decodeLines_append)
qed

lemma TrimSpace_presharedKeyLine:
  "TrimSpace presharedKeyLine = ''PresharedKey = AQIDBAUGBwgJCgsMDQ4PEBESExQVFhcYGRobHB0eHyA=''"
  by (simp add: TrimSpace_def spaceRunes_def TrimLeftRunes.simps presharedKeyLine_def)

lemma TrimSpace_PresharedKey: "TrimSpace ''PresharedKey '' = ''PresharedKey''"
  by (simp add: TrimSpace_def spaceRunes_def TrimLeftRunes.simps)

lemma presharedKeyLine_directive:
  "isDirective presharedKeyLine" "keyOf presharedKeyLine = ''PresharedKey''"
  "valueOf presharedKeyLine = exampleKeyText"
  by (simp_all add: isDirective_def keyOf_def valueOf_def TrimSpace_presharedKeyLine
      TrimSpace_PresharedKey TrimSpace_exampleKeyText)

lemma Split_onePresharedKey: "Split onePresharedKey CHR 0x0A = [''[Peer]''] @ [presharedKeyLine]"
  by (simp add: onePresharedKey_def presharedKeyLine_def)

lemma Split_twoPresharedKeys:
  "Split twoPresharedKeys CHR 0x0A = [''[Peer]''] @ presharedKeyLine # [] @ presharedKeyLine # []"
  by (simp add: twoPresharedKeys_def presharedKeyLine_def)

lemma Peers_newConfig: "Peers newConfig = []"
  by (simp add: newConfig_def zeroConfig_def)

lemma decodeLines_Peer: "decodeLines L 0 [''[Peer]''] decodeStart = Inr firstPeer"
  by (simp add: decodeLine_def TrimSpace_Peer decodeStart_def firstPeer_def Peers_newConfig)

theorem preshared_key_at_most_once_witness:
  "Split twoPresharedKeys CHR 0x0A = [''[Peer]''] @ presharedKeyLine # [] @ presharedKeyLine # []
   \<and> isDirective presharedKeyLine \<and> keyOf presharedKeyLine = ''PresharedKey''
   \<and> (\<exists>err. UnmarshalText exampleNet twoPresharedKeys = Inl err)
   \<and> Split onePresharedKey CHR 0x0A = [''[Peer]''] @ [presharedKeyLine]
   \<and> decodeLines exampleNet 0 [''[Peer]''] decodeStart = Inr firstPeer
   \<and> state firstPeer = peer \<and> peerCfg firstPeer = Some 0
   \<and> PresharedKey (Peers (cfg firstPeer) ! 0) = None
   \<and> DecodeString (valueOf presharedKeyLine) = Some exampleKey
   \<and> UnmarshalText exampleNet onePresharedKey =
       Inr (newConfig\<lparr>Peers := [zeroPeerConfig\<lparr>PresharedKey := Some exampleKey\<rparr>]\<rparr>)"
proof -
  have h1: "Split twoPresharedKeys CHR 0x0A = [''[Peer]''] @ presharedKeyLine # [] @ presharedKeyLine # []
      \<and> isDirective presharedKeyLine \<and> keyOf presharedKeyLine = ''PresharedKey''
      \<and> isDirective presharedKeyLine \<and> keyOf presharedKeyLine = ''PresharedKey''
      \<and> (\<forall>l \<in> set []. TrimSpace l \<noteq> ''[Peer]'')"
    using Split_twoPresharedKeys presharedKeyLine_directive by simp
  have h2: "Split onePresharedKey CHR 0x0A = [''[Peer]''] @ [presharedKeyLine]
      \<and> decodeLines exampleNet 0 [''[Peer]''] decodeStart = Inr firstPeer
      \<and> state firstPeer = peer \<and> peerCfg firstPeer = Some 0
      \<and> PresharedKey (Peers (cfg firstPeer) ! 0) = None
      \<and> isDirective presharedKeyLine \<and> keyOf presharedKeyLine = ''PresharedKey''
      \<and> DecodeString (valueOf presharedKeyLine) = Some exampleKey"
    using Split_onePresharedKey presharedKeyLine_directive decodeLines_Peer
    by (simp add: DecodeString_exampleKeyText firstPeer_def zeroPeerConfig_def)
  note inst = preshared_key_at_most_once
      [where body = twoPresharedKeys and pre = "[''[Peer]'']" and la = presharedKeyLine
         and mid = "[]" and lb = presharedKeyLine and post = "[]" and L = exampleNet
         and t = onePresharedKey and before = "[''[Peer]'']" and l = presharedKeyLine
         and d = firstPeer and i = 0 and bs = exampleKey]
  from inst h1 have c1: "\<exists>err. UnmarshalText exampleNet twoPresharedKeys = Inl err"
    by blast
  from inst h2 have c2: "UnmarshalText exampleNet onePresharedKey =
            Inr ((cfg firstPeer)\<lparr>Peers := (Peers (cfg firstPeer))
                   [0 := (Peers (cfg firstPeer) ! 0)\<lparr>PresharedKey := Some (copyKey exampleKey)\<rparr>]\<rparr>)"
    by blast
  have k: "copyKey exampleKey = exampleKey"
    by (simp add: copyKey_def KeyLen_def exampleKey_def)
  from c2 have c2': "UnmarshalText exampleNet onePresharedKey =
       Inr (newConfig\<lparr>Peers := [zeroPeerConfig\<lparr>PresharedKey := Some exampleKey\<rparr>]\<rparr>)"
    by (simp add: k firstPeer_def)
  from h1 h2 c1 c2' show ?thesis by simp
qed

section \<open>The endpoints of the peers\<close>

lemma scanLine_blank: "TrimSpace l = [] \<Longrightarrow> scanLine no l s = Inr s"
  by (simp add: scanLine_def)

lemma scanLines_blank:
  "\<forall>l \<in> set ls. TrimSpace l = [] \<Longrightarrow> scanLines no (ls @ rest) s = scanLines (no + length ls) rest s"
  by (induction ls arbitrary: no) (simp_all add: scanLine_blank)

lemma scanLine_Peer:
  "TrimSpace l = ''[Peer]'' \<Longrightarrow> scanLine no l s = Inr (s\<lparr>scanState := peer, endpoint := [], pubkey := []\<rparr>)"
  by (simp add: scanLine_def)

lemma scanLine_directive:
  assumes "isDirective l" and "scanState s = peer"
  shows "scanLine no l s =
     (let s1 = (if keyOf l = ''PublicKey'' then s\<lparr>pubkey := valueOf l\<rparr>
                else if keyOf l = ''Endpoint'' then s\<lparr>endpoint := valueOf l\<rparr>
                else s)
      in if pubkey s1 = [] \<or> endpoint s1 = [] then Inr s1
         else (case wgtypes_ParseKey (pubkey s1) of
                 None \<Rightarrow> Inl CannotParseKey
               | Some key \<Rightarrow>
                   Inr (s1\<lparr>unresolvedEndpoints := (unresolvedEndpoints s1)(key \<mapsto> endpoint s1),
                           endpoint := [], pubkey := []\<rparr>)))"
proof -
  from assms(1) have "TrimSpace l \<noteq> ''[Interface]''" "TrimSpace l \<noteq> ''[Peer]''"
    by (auto simp: isDirective_def)
  with assms show ?thesis
    by (auto simp add: scanLine_def isDirective_def keyOf_def valueOf_def Let_def
        length_Split_less_2 hd_Split Join_tl_Split split: option.splits)
qed

lemma wgtypes_ParseKey_Nil: "wgtypes_ParseKey [] = None"
  by (simp add: wgtypes_ParseKey_def DecodeString_def KeyLen_def)

lemma scenario_lines:
  assumes "TrimSpace h1 = ''[Peer]''"
    and "isDirective p1" and "keyOf p1 = ''PublicKey''" and "valueOf p1 = k1"
    and "isDirective e1" and "keyOf e1 = ''Endpoint''" and "valueOf e1 = ''host1:51820''"
    and "\<forall>l \<in> set blank1. TrimSpace l = []"
    and "TrimSpace h2 = ''[Peer]''"
    and "isDirective p2" and "keyOf p2 = ''PublicKey''" and "valueOf p2 = k2"
    and "\<forall>l \<in> set blank2. TrimSpace l = []"
    and "wgtypes_ParseKey k1 = Some key1"
  shows "scanLines 0 ([h1, p1, e1] @ blank1 @ [h2, p2] @ blank2) scanStart =
           Inr (scanStart\<lparr>scanState := peer, pubkey := k2,
                  unresolvedEndpoints := [key1 \<mapsto> ''host1:51820'']\<rparr>)"
proof -
  from assms(14) have k1: "k1 \<noteq> []"
    using wgtypes_ParseKey_Nil by auto
  let ?s3 = "scanStart\<lparr>scanState := peer, unresolvedEndpoints := [key1 \<mapsto> ''host1:51820'']\<rparr>"
  have a: "scanLines 0 [h1, p1, e1] scanStart = Inr ?s3"
    using assms(1-7,14) k1
    by (simp add: scanLine_Peer scanLine_directive scanStart_def)
  have b: "scanLines n ([h2, p2] @ blank2) ?s3 =
      Inr (scanStart\<lparr>scanState := peer, pubkey := k2,
                  unresolvedEndpoints := [key1 \<mapsto> ''host1:51820'']\<rparr>)" for n
    using assms(9-13) scanLines_blank [of blank2 _ "[]"]
    by (simp add: scanLine_Peer scanLine_directive scanStart_def)
  have "scanLines 0 ([h1, p1, e1] @ (blank1 @ [h2, p2] @ blank2)) scanStart
      = scanLines (0 + length [h1, p1, e1]) (blank1 @ [h2, p2] @ blank2) ?s3"
    by (simp only: scanLines_append a sum.case)
  also have "\<dots> = scanLines (0 + length [h1, p1, e1] + length blank1) ([h2, p2] @ blank2) ?s3"
    using assms(8) by (rule scanLines_blank)
  finally show ?thesis using b by simp
qed

text \<open>
  C7. For a file whose lines are a \<open>[Peer]\<close> header, a \<open>PublicKey\<close> line of a valid key
  K1, an \<open>Endpoint\<close> line of \<open>host1:51820\<close>, then (blank lines apart) a second \<open>[Peer]\<close>
  header and a \<open>PublicKey\<close> line of any K2, \<open>GetUnresolvedEndpoints\<close> returns the mapping
  whose only entry takes K1 to \<open>host1:51820\<close>. In general, inside a peer section, as
  soon as a line leaves both the public key and the endpoint non-empty (and the key
  is valid), the pair is added to the mapping and both are reset to the empty
  string.
\<close>

theorem endpoints_of_two_peers:
  "(ReadFile F (''/etc/wireguard/'' @ name @ ''.conf'') = Some b
      \<and> Split b CHR 0x0A = [h1, p1, e1] @ blank1 @ [h2, p2] @ blank2
      \<and> TrimSpace h1 = ''[Peer]''
      \<and> isDirective p1 \<and> keyOf p1 = ''PublicKey'' \<and> valueOf p1 = k1
      \<and> isDirective e1 \<and> keyOf e1 = ''Endpoint'' \<and> valueOf e1 = ''host1:51820''
      \<and> (\<forall>l \<in> set blank1. TrimSpace l = [])
      \<and> TrimSpace h2 = ''[Peer]''
      \<and> isDirective p2 \<and> keyOf p2 = ''PublicKey'' \<and> valueOf p2 = k2
      \<and> (\<forall>l \<in> set blank2. TrimSpace l = [])
      \<and> wgtypes_ParseKey k1 = Some key1
    \<longrightarrow> GetUnresolvedEndpoints F name = Inr [key1 \<mapsto> ''host1:51820''])
   \<and> (scanState s = peer \<and> isDirective l
      \<and> pk = (if keyOf l = ''PublicKey'' then valueOf l else pubkey s)
      \<and> ep = (if keyOf l = ''PublicKey'' then endpoint s
              else if keyOf l = ''Endpoint'' then valueOf l else endpoint s)
      \<and> pk \<noteq> [] \<and> ep \<noteq> []
      \<and> wgtypes_ParseKey pk = Some key
    \<longrightarrow> scanLine no l s =
          Inr (s\<lparr>unresolvedEndpoints := (unresolvedEndpoints s)(key \<mapsto> ep),
                 endpoint := [], pubkey := []\<rparr>))"
proof (intro conjI impI)
  assume a: "ReadFile F (''/etc/wireguard/'' @ name @ ''.conf'') = Some b
      \<and> Split b CHR 0x0A = [h1, p1, e1] @ blank1 @ [h2, p2] @ blank2
      \<and> TrimSpace h1 = ''[Peer]''
      \<and> isDirective p1 \<and> keyOf p1 = ''PublicKey'' \<and> valueOf p1 = k1
      \<and> isDirective e1 \<and> keyOf e1 = ''Endpoint'' \<and> valueOf e1 = ''host1:51820''
      \<and> (\<forall>l \<in> set blank1. TrimSpace l = [])
      \<and> TrimSpace h2 = ''[Peer]''
      \<and> isDirective p2 \<and> keyOf p2 = ''PublicKey'' \<and> valueOf p2 = k2
      \<and> (\<forall>l \<in> set blank2. TrimSpace l = [])
      \<and> wgtypes_ParseKey k1 = Some key1"
  with scenario_lines [of h1 p1 k1 e1 blank1 h2 p2 k2 blank2 key1]
  have "scanLines 0 ([h1, p1, e1] @ blank1 @ [h2, p2] @ blank2) scanStart =
           Inr (scanStart\<lparr>scanState := peer, pubkey := k2,
                  unresolvedEndpoints := [key1 \<mapsto> ''host1:51820'']\<rparr>)"
    by blast
  with a show "GetUnresolvedEndpoints F name = Inr [key1 \<mapsto> ''host1:51820'']"
    by (simp add: GetUnresolvedEndpoints_def)
next
  assume "scanState s = peer \<and> isDirective l
      \<and> pk = (if keyOf l = ''PublicKey'' then valueOf l else pubkey s)
      \<and> ep = (if keyOf l = ''PublicKey'' then endpoint s
              else if keyOf l = ''Endpoint'' then valueOf l else endpoint s)
      \<and> pk \<noteq> [] \<and> ep \<noteq> []
      \<and> wgtypes_ParseKey pk = Some key"
  then show "scanLine no l s =
          Inr (s\<lparr>unresolvedEndpoints := (unresolvedEndpoints s)(key \<mapsto> ep),
                 endpoint := [], pubkey := []\<rparr>)"
    by (auto simp add: scanLine_directive Let_def)
qed

lemma TrimSpace_Nil: "TrimSpace [] = []"
  by (simp add: TrimSpace_def TrimLeftRunes.simps)

lemma TrimSpace_publicKeyLine1:
  "TrimSpace publicKeyLine1 = ''PublicKey = AQIDBAUGBwgJCgsMDQ4PEBESExQVFhcYGRobHB0eHyA=''"
  by (simp add: TrimSpace_def spaceRunes_def TrimLeftRunes.simps publicKeyLine1_def)

lemma TrimSpace_publicKeyLine2:
  "TrimSpace publicKeyLine2 = ''PublicKey = AAAAAAAAAAAAAAAAAAAAAAAAAAAAAAAAAAAAAAAAAAA=''"
  by (simp add: TrimSpace_def spaceRunes_def TrimLeftRunes.simps publicKeyLine2_def)

lemma TrimSpace_endpointLine: "TrimSpace endpointLine = ''Endpoint = host1:51820''"
  by (simp add: TrimSpace_def spaceRunes_def TrimLeftRunes.simps endpointLine_def)

lemma TrimSpace_zeroKeyText:
  "TrimSpace '' AAAAAAAAAAAAAAAAAAAAAAAAAAAAAAAAAAAAAAAAAAA='' = zeroKeyText"
  by (simp add: TrimSpace_def spaceRunes_def TrimLeftRunes.simps zeroKeyText_def)

lemma TrimSpace_Endpoint: "TrimSpace ''Endpoint '' = ''Endpoint''"
  by (simp add: TrimSpace_def spaceRunes_def TrimLeftRunes.simps)

lemma TrimSpace_host1: "TrimSpace '' host1:51820'' = ''host1:51820''"
  by (simp add: TrimSpace_def spaceRunes_def TrimLeftRunes.simps)

lemma publicKeyLine1_directive:
  "isDirective publicKeyLine1" "keyOf publicKeyLine1 = ''PublicKey''"
  "valueOf publicKeyLine1 = exampleKeyText"
  by (simp_all add: isDirective_def keyOf_def valueOf_def TrimSpace_publicKeyLine1
      TrimSpace_PublicKey TrimSpace_exampleKeyText)

lemma publicKeyLine2_directive:
  "isDirective publicKeyLine2" "keyOf publicKeyLine2 = ''PublicKey''"
  "valueOf publicKeyLine2 = zeroKeyText"
  by (simp_all add: isDirective_def keyOf_def valueOf_def TrimSpace_publicKeyLine2
      TrimSpace_PublicKey TrimSpace_zeroKeyText)

lemma endpointLine_directive:
  "isDirective endpointLine" "keyOf endpointLine = ''Endpoint''"
  "valueOf endpointLine = ''host1:51820''"
  by (simp_all add: isDirective_def keyOf_def valueOf_def TrimSpace_endpointLine
      TrimSpace_Endpoint TrimSpace_host1)

lemma Split_endpointsText:
  "Split endpointsText CHR 0x0A =
     [''[Peer]'', publicKeyLine1, endpointLine] @ [[]] @ [''[Peer]'', publicKeyLine2] @ [[]]"
  by (simp add: endpointsText_def publicKeyLine1_def publicKeyLine2_def endpointLine_def)

lemma wgtypes_ParseKey_exampleKeyText: "wgtypes_ParseKey exampleKeyText = Some exampleKey"
  by (simp add: wgtypes_ParseKey_def DecodeString_exampleKeyText)
    (simp add: exampleKey_def copyKey_def KeyLen_def)

theorem endpoints_of_two_peers_witness:
  "ReadFile (oneFile endpointsText) (''/etc/wireguard/'' @ ''wg0'' @ ''.conf'') = Some endpointsText
   \<and> Split endpointsText CHR 0x0A =
       [''[Peer]'', publicKeyLine1, endpointLine] @ [[]] @ [''[Peer]'', publicKeyLine2] @ [[]]
   \<and> TrimSpace ''[Peer]'' = ''[Peer]''
   \<and> isDirective publicKeyLine1 \<and> keyOf publicKeyLine1 = ''PublicKey''
   \<and> valueOf publicKeyLine1 = exampleKeyText
   \<and> isDirective endpointLine \<and> keyOf endpointLine = ''Endpoint''
   \<and> valueOf endpointLine = ''host1:51820''
   \<and> TrimSpace [] = []
   \<and> isDirective publicKeyLine2 \<and> keyOf publicKeyLine2 = ''PublicKey''
   \<and> valueOf publicKeyLine2 = zeroKeyText
   \<and> wgtypes_ParseKey exampleKeyText = Some exampleKey
   \<and> GetUnresolvedEndpoints (oneFile endpointsText) ''wg0'' = Inr [exampleKey \<mapsto> ''host1:51820'']
   \<and> scanState (scanStart\<lparr>scanState := peer, pubkey := exampleKeyText\<rparr>) = peer
   \<and> scanLine 2 endpointLine (scanStart\<lparr>scanState := peer, pubkey := exampleKeyText\<rparr>) =
       Inr (scanStart\<lparr>scanState := peer, unresolvedEndpoints := [exampleKey \<mapsto> ''host1:51820'']\<rparr>)"
proof -
  let ?s = "scanStart\<lparr>scanState := peer, pubkey := exampleKeyText\<rparr>"
  have h1: "ReadFile (oneFile endpointsText) (''/etc/wireguard/'' @ ''wg0'' @ ''.conf'') = Some endpointsText
      \<and> Split endpointsText CHR 0x0A =
          [''[Peer]'', publicKeyLine1, endpointLine] @ [[]] @ [''[Peer]'', publicKeyLine2] @ [[]]
      \<and> TrimSpace ''[Peer]'' = ''[Peer]''
      \<and> isDirective publicKeyLine1 \<and> keyOf publicKeyLine1 = ''PublicKey''
      \<and> valueOf publicKeyLine1 = exampleKeyText
      \<and> isDirective endpointLine \<and> keyOf endpointLine = ''Endpoint''
      \<and> valueOf endpointLine = ''host1:51820''
      \<and> (\<forall>l \<in> set [[]]. TrimSpace l = [])
      \<and> TrimSpace ''[Peer]'' = ''[Peer]''
      \<and> isDirective publicKeyLine2 \<and> keyOf publicKeyLine2 = ''PublicKey''
      \<and> valueOf publicKeyLine2 = zeroKeyText
      \<and> (\<forall>l \<in> set [[]]. TrimSpace l = [])
      \<and> wgtypes_ParseKey exampleKeyText = Some exampleKey"
    using Split_endpointsText publicKeyLine1_directive publicKeyLine2_directive
      endpointLine_directive wgtypes_ParseKey_exampleKeyText
    by (simp add: oneFile_def TrimSpace_Peer TrimSpace_Nil)
  have h2: "scanState ?s = peer \<and> isDirective endpointLine
      \<and> exampleKeyText = (if keyOf endpointLine = ''PublicKey'' then valueOf endpointLine else pubkey ?s)
      \<and> ''host1:51820'' = (if keyOf endpointLine = ''PublicKey'' then endpoint ?s
              else if keyOf endpointLine = ''Endpoint'' then valueOf endpointLine else endpoint ?s)
      \<and> exampleKeyText \<noteq> [] \<and> ''host1:51820'' \<noteq> []
      \<and> wgtypes_ParseKey exampleKeyText = Some exampleKey"
    using endpointLine_directive wgtypes_ParseKey_exampleKeyText
    by (simp add: exampleKeyText_def)
  note inst = endpoints_of_two_peers
      [where F = "oneFile endpointsText" and name = "''wg0''" and b = endpointsText
         and ?h1.0 = "''[Peer]''" and ?p1.0 = publicKeyLine1 and ?e1.0 = endpointLine
         and ?blank1.0 = "[[]]" and ?h2.0 = "''[Peer]''" and ?p2.0 = publicKeyLine2
         and ?blank2.0 = "[[]]" and ?k1.0 = exampleKeyText and ?k2.0 = zeroKeyText
         and ?key1.0 = exampleKey and s = ?s and l = endpointLine and pk = exampleKeyText
         and ep = "''host1:51820''" and key = exampleKey and no = 2]
  from inst h1 have c1: "GetUnresolvedEndpoints (oneFile endpointsText) ''wg0'' = Inr [exampleKey \<mapsto> ''host1:51820'']"
    by blast
  from inst h2 have c2: "scanLine 2 endpointLine ?s =
          Inr (?s\<lparr>unresolvedEndpoints := (unresolvedEndpoints ?s)(exampleKey \<mapsto> ''host1:51820''),
                 endpoint := [], pubkey := []\<rparr>)"
    by blast
  from c2 have c2': "scanLine 2 endpointLine ?s =
       Inr (scanStart\<lparr>scanState := peer, unresolvedEndpoints := [exampleKey \<mapsto> ''host1:51820'']\<rparr>)"
    by (simp add: scanStart_def)
  from h1 h2 c1 c2' show ?thesis by simp
qed

section \<open>Configurations by pattern\<close>













section \<open>Encoding and decoding the examples\<close>

lemma TrimSpace_privateKeyLine:
  "TrimSpace privateKeyLine = ''PrivateKey = AQIDBAUGBwgJCgsMDQ4PEBESExQVFhcYGRobHB0eHyA=''"
  by (simp add: TrimSpace_def spaceRunes_def TrimLeftRunes.simps privateKeyLine_def)

lemma TrimSpace_PrivateKey: "TrimSpace ''PrivateKey '' = ''PrivateKey''"
  by (simp add: TrimSpace_def spaceRunes_def TrimLeftRunes.simps)

lemma privateKeyLine_directive:
  "isDirective privateKeyLine" "keyOf privateKeyLine = ''PrivateKey''"
  "valueOf privateKeyLine = exampleKeyText"
  by (simp_all add: isDirective_def keyOf_def valueOf_def TrimSpace_privateKeyLine
      TrimSpace_PrivateKey TrimSpace_exampleKeyText)

lemma table_lines:
  "isDirective ''Table = off''" "keyOf ''Table = off'' = ''Table''" "valueOf ''Table = off'' = ''off''"
  "isDirective ''Table = 42''" "keyOf ''Table = 42'' = ''Table''" "valueOf ''Table = 42'' = ''42''"
  "isDirective ''Table = 0''" "keyOf ''Table = 0'' = ''Table''" "valueOf ''Table = 0'' = ''0''"
  by (simp_all add: isDirective_def keyOf_def valueOf_def TrimSpace_def spaceRunes_def TrimLeftRunes.simps)

lemma preUp_line:
  "isDirective ''PreUp = [echo hello]''" "keyOf ''PreUp = [echo hello]'' = ''PreUp''"
  "valueOf ''PreUp = [echo hello]'' = ''[echo hello]''"
  by (simp_all add: isDirective_def keyOf_def valueOf_def TrimSpace_def spaceRunes_def TrimLeftRunes.simps)

lemma ParseKey_exampleKeyText: "ParseKey exampleKeyText = Inr exampleKey"
  by (simp add: ParseKey_def DecodeString_exampleKeyText)
    (simp add: exampleKey_def copyKey_def KeyLen_def)

lemma decode_Interface: "decodeLine L no ''[Interface]'' d = Inr (d\<lparr>state := inter\<rparr>)"
  by (simp add: decodeLine_def TrimSpace_Interface)

lemma decode_blank: "decodeLine L no [] d = Inr d"
  by (simp add: decodeLine_def TrimSpace_Nil)

lemma decode_privateKeyLine:
  "state d = inter \<Longrightarrow>
   decodeLine L no privateKeyLine d = Inr (d\<lparr>cfg := (cfg d)\<lparr>PrivateKey := Some exampleKey\<rparr>\<rparr>)"
  by (simp add: decodeLine_directive privateKeyLine_directive dispatch_def parseInterfaceLine_def
      ParseKey_exampleKeyText)

lemma ParseInt_examples: "ParseInt ''0'' = Some 0" "ParseInt ''42'' = Some 42"
  by (simp_all add: ParseInt_def digitVal_def digits_def)

lemma decode_table_lines:
  "state d = inter \<Longrightarrow> decodeLine L no ''Table = off'' d = Inr (d\<lparr>cfg := (cfg d)\<lparr>Table := None\<rparr>\<rparr>)"
  "state d = inter \<Longrightarrow> decodeLine L no ''Table = 42'' d = Inr (d\<lparr>cfg := (cfg d)\<lparr>Table := Some 42\<rparr>\<rparr>)"
  "state d = inter \<Longrightarrow> decodeLine L no ''Table = 0'' d = Inr (d\<lparr>cfg := (cfg d)\<lparr>Table := Some 0\<rparr>\<rparr>)"
  by (simp_all add: decodeLine_directive table_lines dispatch_def parseInterfaceLine_def
      lowerIsOff_def lowerByte_def ParseInt_examples)

lemma decode_preUp_line:
  "state d = inter \<Longrightarrow>
   decodeLine L no ''PreUp = [echo hello]'' d
     = Inr (d\<lparr>cfg := (cfg d)\<lparr>PreUp := PreUp (cfg d) @ [''[echo hello]'']\<rparr>\<rparr>)"
  by (simp add: decodeLine_directive preUp_line dispatch_def parseInterfaceLine_def)

lemma Split_texts:
  "Split keyOnlyText CHR 0x0A = [''[Interface]'', privateKeyLine, []]"
  "Split tableOffText CHR 0x0A = [''[Interface]'', privateKeyLine, ''Table = off'', []]"
  "Split table42Text CHR 0x0A = [''[Interface]'', privateKeyLine, ''Table = 42'', []]"
  "Split tableZeroText CHR 0x0A = [''[Interface]'', privateKeyLine, ''Table = 0'', []]"
  "Split preUpText CHR 0x0A = [''[Interface]'', privateKeyLine, ''Table = 0'', ''PreUp = [echo hello]'', []]"
  by (simp_all add: keyOnlyText_def tableOffText_def table42Text_def tableZeroText_def preUpText_def
      privateKeyLine_def)

lemma Table_newConfig: "Table newConfig = Some 0"
  by (simp add: newConfig_def)

lemma PreUp_newConfig: "PreUp newConfig = []"
  by (simp add: newConfig_def zeroConfig_def)

lemma UnmarshalText_examples:
  "UnmarshalText L keyOnlyText = Inr keyConfig"
  "UnmarshalText L tableOffText = Inr (keyConfig\<lparr>Table := None\<rparr>)"
  "UnmarshalText L table42Text = Inr (keyConfig\<lparr>Table := Some 42\<rparr>)"
  "UnmarshalText L tableZeroText = Inr keyConfig"
  "UnmarshalText L preUpText = Inr (keyConfig\<lparr>PreUp := [''[echo hello]'']\<rparr>)"
  by (simp_all add: UnmarshalText_def Split_texts decode_Interface decode_blank
      decode_privateKeyLine decode_table_lines decode_preUp_line decodeStart_def keyConfig_def
      Table_newConfig PreUp_newConfig)

lemma formatInt_0: "formatInt 0 = ''0''"
  by (simp add: formatInt_def decimal.simps [of 0] digits_def)

lemma serializeKey_exampleKey: "serializeKey exampleKey = exampleKeyText"
  by (simp add: serializeKey_def EncodeToString_exampleKey)

lemma newConfig_fields:
  "ListenPort newConfig = None" "MTU newConfig = 0" "Address newConfig = []" "DNS newConfig = []"
  "PostUp newConfig = []" "PreDown newConfig = []" "PostDown newConfig = []"
  "SaveConfig newConfig = False" "PrivateKey newConfig = None"
  by (simp_all add: newConfig_def zeroConfig_def)

lemma MarshalText_examples:
  "MarshalText L (keyConfig\<lparr>Table := None\<rparr>) = Inr keyOnlyText"
  "MarshalText L keyConfig = Inr tableZeroText"
  "MarshalText L (keyConfig\<lparr>PreUp := [''echo hello'']\<rparr>) = Inr preUpText"
  "MarshalText L newConfig = Inl ErrorCallingWgKey"
  by (simp_all add: MarshalText_def keyConfig_def newConfig_fields Peers_newConfig Table_newConfig
      PreUp_newConfig serializeKey_exampleKey formatInt_0 formatStrings_def
      keyOnlyText_def tableZeroText_def preUpText_def exampleKeyText_def)

section \<open>The three states of the routing table\<close>

text \<open>
  C1. The decoder does tell the three states apart: \<open>Table = off\<close> gives the nil pointer,
  no \<open>Table\<close> line the pointer to 0 that \<open>newConfig\<close> sets, \<open>Table = 42\<close> the pointer to 42.
  But they do not survive encoding: for the nil pointer the template writes no
  \<open>Table\<close> line at all (its \<open>if .Table\<close> is false), and the text it writes decodes to the
  pointer to 0. A disabled table comes back as the default one.
\<close>

theorem disabled_table_is_encoded_as_default:
  "UnmarshalText L tableOffText = Inr (keyConfig\<lparr>Table := None\<rparr>)
   \<and> UnmarshalText L keyOnlyText = Inr keyConfig
   \<and> Table keyConfig = Some 0
   \<and> UnmarshalText L table42Text = Inr (keyConfig\<lparr>Table := Some 42\<rparr>)
   \<and> MarshalText L (keyConfig\<lparr>Table := None\<rparr>) = Inr keyOnlyText
   \<and> MarshalText L keyConfig = Inr tableZeroText
   \<and> UnmarshalText L tableZeroText = Inr keyConfig"
proof -
  have "Table keyConfig = Some 0"
    by (simp add: keyConfig_def Table_newConfig)
  then show ?thesis
    by (simp add: UnmarshalText_examples MarshalText_examples)
qed

section \<open>When encoding fails\<close>



section \<open>Integers and keys are read back from what is printed\<close>

lemma indexOf_nth: "distinct xs \<Longrightarrow> i < length xs \<Longrightarrow> indexOf xs (xs ! i) = Some i"
proof (induction xs arbitrary: i)
  case Nil
  then show ?case by simp
next
  case (Cons x xs)
  show ?case
  proof (cases i)
    case 0
    then show ?thesis by simp
  next
    case (Suc j)
    with Cons.prems have "xs ! j \<in> set xs" by simp
    with Cons.prems have "x \<noteq> xs ! j" by auto
    with Cons Suc show ?thesis by simp
  qed
qed

lemma digitVal_digit: "d < 10 \<Longrightarrow> digitVal (digits ! d) = Some d"
proof -
  have "distinct digits" "length digits = 10" by (simp_all add: digits_def)
  then show "d < 10 \<Longrightarrow> digitVal (digits ! d) = Some d"
    by (simp add: digitVal_def indexOf_nth)
qed

lemma printable_digit: "d < 10 \<Longrightarrow> printable (digits ! d)"
proof -
  have "length digits = 10" by (simp add: digits_def)
  then show "d < 10 \<Longrightarrow> printable (digits ! d)"
    using printable_digits by (simp add: list_all_length)
qed

lemma parseDigits_append:
  "parseDigits acc (xs @ ys) =
     (case parseDigits acc xs of None \<Rightarrow> None | Some a \<Rightarrow> parseDigits a ys)"
  by (induction xs arbitrary: acc) (auto split: option.splits)

lemma parseDigits_decimal: "0 \<le> n \<Longrightarrow> parseDigits 0 (decimal n) = Some n"
proof (induction n rule: decimal.induct)
  case (1 n)
  show ?case
  proof (cases "n < 10")
    case True
    with "1.prems" have "nat n < 10" by simp
    with True "1.prems" show ?thesis
      by (subst decimal.simps) (simp add: digitVal_digit)
  next
    case False
    with "1.prems" have ih: "parseDigits 0 (decimal (n div 10)) = Some (n div 10)"
      by (intro "1.IH") simp_all
    from "1.prems" have "nat (n mod 10) < 10" by simp
    with False ih "1.prems" show ?thesis
      by (subst decimal.simps) (simp add: parseDigits_append digitVal_digit)
  qed
qed

lemma decimal_printable: "0 \<le> n \<Longrightarrow> decimal n \<noteq> [] \<and> list_all printable (decimal n)"
proof (induction n rule: decimal.induct)
  case (1 n)
  show ?case
  proof (cases "n < 10")
    case True
    with "1.prems" have "nat n < 10" by simp
    with True show ?thesis
      by (subst (1 2) decimal.simps) (simp add: printable_digit)
  next
    case False
    with "1.prems" have ih: "list_all printable (decimal (n div 10))"
      using "1.IH" by simp
    from "1.prems" have "nat (n mod 10) < 10" by simp
    with False ih show ?thesis
      by (subst (1 2) decimal.simps) (simp add: printable_digit)
  qed
qed

lemma hd_decimal_digit: "0 \<le> n \<Longrightarrow> hd (decimal n) \<noteq> CHR ''+'' \<and> hd (decimal n) \<noteq> CHR ''-''"
proof (induction n rule: decimal.induct)
  case (1 n)
  have nd: "d < 10 \<Longrightarrow> digits ! d \<noteq> CHR ''+'' \<and> digits ! d \<noteq> CHR ''-''" for d
  proof -
    assume "d < 10"
    moreover have "length digits = 10" by (simp add: digits_def)
    ultimately have "digits ! d \<in> set digits" by (simp only: nth_mem)
    moreover have "\<forall>c \<in> set digits. c \<noteq> CHR ''+'' \<and> c \<noteq> CHR ''-''"
      by (simp add: digits_def)
    ultimately show ?thesis by blast
  qed
  show ?case
  proof (cases "n < 10")
    case True
    with "1.prems" have "nat n < 10" by simp
    with True nd show ?thesis
      by (subst (1 2) decimal.simps) simp
  next
    case False
    with "1.prems" have ih: "hd (decimal (n div 10)) \<noteq> CHR ''+'' \<and> hd (decimal (n div 10)) \<noteq> CHR ''-''"
      using "1.IH" by simp
    from "1.prems" have "decimal (n div 10) \<noteq> []"
      using decimal_printable [of "n div 10"] by simp
    with False ih show ?thesis
      by (subst (1 2) decimal.simps) simp
  qed
qed

lemma ParseInt_formatInt: "ParseInt (formatInt w) = Some w"
proof (cases "sint w < 0")
  case True
  then have pos: "0 \<le> - sint w" by simp
  have "- (2 ^ 63) \<le> sint w" using sint_ge [of w] by simp
  then have le: "- sint w \<le> 2 ^ 63" by simp
  from pos have ne: "decimal (- sint w) \<noteq> []" using decimal_printable by blast
  have "- (word_of_int (- sint w) :: 64 word) = w" by simp
  with True ne le show ?thesis
    by (simp add: ParseInt_def formatInt_def parseDigits_decimal [OF pos])
next
  case False
  then have pos: "0 \<le> sint w" by simp
  have lt: "sint w < 2 ^ 63" using sint_lt [of w] by simp
  from pos have ne: "decimal (sint w) \<noteq> []" using decimal_printable by blast
  then obtain c cs where d: "decimal (sint w) = c # cs" by (cases "decimal (sint w)") auto
  with hd_decimal_digit [OF pos] have c: "c \<noteq> CHR ''+''" "c \<noteq> CHR ''-''" by simp_all
  from parseDigits_decimal [OF pos] d have "parseDigits 0 (c # cs) = Some (sint w)" by simp
  with False d c lt show ?thesis
    by (simp add: ParseInt_def formatInt_def)
qed

lemma formatInt_printable: "formatInt w \<noteq> [] \<and> list_all printable (formatInt w)"
proof -
  have m: "printable (CHR ''-'')" by (simp add: printable_def)
  show ?thesis
  proof (cases "sint w < 0")
    case True
    then have "0 \<le> - sint w" by simp
    from decimal_printable [OF this] True m show ?thesis by (simp add: formatInt_def)
  next
    case False
    then have "0 \<le> sint w" by simp
    from decimal_printable [OF this] False show ?thesis by (simp add: formatInt_def)
  qed
qed

lemma encodeStd_facts: "distinct encodeStd" "length encodeStd = 64"
  by (simp_all add: encodeStd_def)

lemma decodeMap_encodeStd: "n < 64 \<Longrightarrow> decodeMap (encodeStd ! n) = Some n"
  by (simp add: decodeMap_def indexOf_nth encodeStd_facts)

lemma printable_encodeStd_nth: "n < 64 \<Longrightarrow> printable (encodeStd ! n)"
  using printable_encodeStd(1) by (simp add: list_all_length encodeStd_facts)

lemma padChar_not_encodeStd: "n < 64 \<Longrightarrow> encodeStd ! n \<noteq> padChar"
proof -
  assume "n < 64"
  then have "encodeStd ! n \<in> set encodeStd" by (simp only: nth_mem encodeStd_facts)
  moreover have "padChar \<notin> set encodeStd" by (simp add: encodeStd_def padChar_def)
  ultimately show ?thesis by auto
qed

lemma decodeMap_padChar: "decodeMap padChar = None"
  by (simp add: decodeMap_def encodeStd_def padChar_def)

lemma sextets:
  fixes a b c :: nat
  assumes "a < 256" "b < 256" "c < 256"
  shows "a div 4 < 64" "a mod 4 * 16 < 64" "a mod 4 * 16 + b div 16 < 64"
    "b mod 16 * 4 < 64" "b mod 16 * 4 + c div 64 < 64" "c mod 64 < 64"
  using assms by simp_all

lemma div_mult_add:
  fixes k m x :: nat
  shows "x < k \<Longrightarrow> (k * m + x) div k = m" and "x < k \<Longrightarrow> (k * m + x) mod k = x"
  by simp_all

lemma quantum1:
  fixes a :: nat
  shows "(a div 4 * 64 + a mod 4 * 16) div 16 = a"
proof -
  define A r where "A = a div 4" and "r = a mod 4"
  have a: "a = 4 * A + r" by (simp add: A_def r_def)
  have "A * 64 + r * 16 = 16 * (4 * A + r) + 0" by simp
  then have "(A * 64 + r * 16) div 16 = 4 * A + r"
    by (simp only: div_mult_add(1) [of 0 16])
  with a show ?thesis by (simp add: A_def r_def)
qed

lemma quantum2:
  fixes a b :: nat
  assumes "b < 256"
  shows "(a div 4 * 64 + (a mod 4 * 16 + b div 16)) div 16 = a"
    and "(((a mod 4 * 16 + b div 16) * 64 + b mod 16 * 4) div 4) mod 256 = b"
proof -
  define A r B s where "A = a div 4" and "r = a mod 4" and "B = b div 16" and "s = b mod 16"
  have a: "a = 4 * A + r" by (simp add: A_def r_def)
  have b: "b = 16 * B + s" by (simp add: B_def s_def)
  from assms have B: "B < 16" by (simp add: B_def)
  have "A * 64 + (r * 16 + B) = 16 * (4 * A + r) + B" by simp
  with B have "(A * 64 + (r * 16 + B)) div 16 = 4 * A + r"
    by (simp only: div_mult_add(1))
  with a show "(a div 4 * 64 + (a mod 4 * 16 + b div 16)) div 16 = a"
    by (simp add: A_def r_def B_def)
  have "(r * 16 + B) * 64 + s * 4 = 4 * (256 * r + (16 * B + s)) + 0" by simp
  then have "((r * 16 + B) * 64 + s * 4) div 4 = 256 * r + (16 * B + s)"
    by (simp only: div_mult_add(1) [of 0 4])
  with b have "((r * 16 + B) * 64 + s * 4) div 4 = 256 * r + b" by simp
  with assms have "(((r * 16 + B) * 64 + s * 4) div 4) mod 256 = b"
    by (simp only: div_mult_add(2))
  then show "(((a mod 4 * 16 + b div 16) * 64 + b mod 16 * 4) div 4) mod 256 = b"
    by (simp add: r_def B_def s_def)
qed

lemma quantum3:
  fixes a b c :: nat
  assumes "b < 256" "c < 256"
  shows "(((a mod 4 * 16 + b div 16) * 64 + (b mod 16 * 4 + c div 64)) div 4) mod 256 = b"
    and "((b mod 16 * 4 + c div 64) * 64 + c mod 64) mod 256 = c"
proof -
  define r B s C t where "r = a mod 4" and "B = b div 16" and "s = b mod 16"
    and "C = c div 64" and "t = c mod 64"
  have b: "b = 16 * B + s" by (simp add: B_def s_def)
  have c: "c = 64 * C + t" by (simp add: C_def t_def)
  from assms have C: "C < 4" by (simp add: C_def)
  have "(r * 16 + B) * 64 + (s * 4 + C) = 4 * (256 * r + (16 * B + s)) + C" by simp
  with C have "((r * 16 + B) * 64 + (s * 4 + C)) div 4 = 256 * r + (16 * B + s)"
    by (simp only: div_mult_add(1))
  with b have "((r * 16 + B) * 64 + (s * 4 + C)) div 4 = 256 * r + b" by simp
  with assms have "(((r * 16 + B) * 64 + (s * 4 + C)) div 4) mod 256 = b"
    by (simp only: div_mult_add(2))
  then show "(((a mod 4 * 16 + b div 16) * 64 + (b mod 16 * 4 + c div 64)) div 4) mod 256 = b"
    by (simp add: r_def B_def s_def C_def)
  have "(s * 4 + C) * 64 + t = 256 * s + (64 * C + t)" by simp
  with c have "(s * 4 + C) * 64 + t = 256 * s + c" by simp
  with assms have "((s * 4 + C) * 64 + t) mod 256 = c"
    by (simp only: div_mult_add(2))
  then show "((b mod 16 * 4 + c div 64) * 64 + c mod 64) mod 256 = c"
    by (simp add: s_def C_def t_def)
qed

lemma decodeQuanta_EncodeToString: "decodeQuanta (EncodeToString bs) = Some bs"
proof (induction bs rule: EncodeToString.induct)
  case 1
  show ?case by simp
next
  case (2 a)
  define x y where "x = unat a div 4" and "y = unat a mod 4 * 16"
  have a: "unat a < 256" using unsigned_less [of a, where ?'a = nat] by simp
  from sextets(1,2) [OF a a a] have s: "x < 64" "y < 64" by (simp_all add: x_def y_def)
  have q: "(x * 64 + y) div 16 = unat a"
    unfolding x_def y_def by (rule quantum1)
  have "EncodeToString [a] = [encodeStd ! x, encodeStd ! y, padChar, padChar]"
    by (simp add: x_def y_def)
  then show ?case
    by (simp add: decodeMap_encodeStd s q)
next
  case (3 a b)
  define x y z where "x = unat a div 4" and "y = unat a mod 4 * 16 + unat b div 16"
    and "z = unat b mod 16 * 4"
  have a: "unat a < 256" using unsigned_less [of a, where ?'a = nat] by simp
  have b: "unat b < 256" using unsigned_less [of b, where ?'a = nat] by simp
  from sextets(1,3,4) [OF a b b] have s: "x < 64" "y < 64" "z < 64"
    by (simp_all add: x_def y_def z_def)
  have q: "(x * 64 + y) div 16 = unat a" "((y * 64 + z) div 4) mod 256 = unat b"
    unfolding x_def y_def z_def by (rule quantum2 [OF b])+
  have "EncodeToString [a, b] = [encodeStd ! x, encodeStd ! y, encodeStd ! z, padChar]"
    by (simp add: x_def y_def z_def)
  then show ?case
    by (simp add: decodeMap_encodeStd padChar_not_encodeStd s q)
next
  case (4 a b c rest)
  define x y z w where "x = unat a div 4" and "y = unat a mod 4 * 16 + unat b div 16"
    and "z = unat b mod 16 * 4 + unat c div 64" and "w = unat c mod 64"
  have a: "unat a < 256" using unsigned_less [of a, where ?'a = nat] by simp
  have b: "unat b < 256" using unsigned_less [of b, where ?'a = nat] by simp
  have c: "unat c < 256" using unsigned_less [of c, where ?'a = nat] by simp
  from sextets(1,3,5,6) [OF a b c] have s: "x < 64" "y < 64" "z < 64" "w < 64"
    by (simp_all add: x_def y_def z_def w_def)
  have q: "(x * 64 + y) div 16 = unat a" "((y * 64 + z) div 4) mod 256 = unat b"
    "(z * 64 + w) mod 256 = unat c"
    unfolding x_def y_def z_def w_def
    by (rule quantum2(1) [OF b] quantum3 [OF b c])+
  have "EncodeToString (a # b # c # rest) =
      encodeStd ! x # encodeStd ! y # encodeStd ! z # encodeStd ! w # EncodeToString rest"
    by (simp add: x_def y_def z_def w_def)
  with 4 show ?case
    by (simp add: decodeMap_encodeStd padChar_not_encodeStd s q)
qed

lemma EncodeToString_printable: "list_all printable (EncodeToString bs)"
proof (induction bs rule: EncodeToString.induct)
  case 1
  show ?case by simp
next
  case (2 a)
  have a: "unat a < 256" using unsigned_less [of a, where ?'a = nat] by simp
  note s = sextets(1,2) [OF a a a]
  show ?case
    by (simp add: printable_encodeStd_nth printable_encodeStd(2) s)
next
  case (3 a b)
  have a: "unat a < 256" using unsigned_less [of a, where ?'a = nat] by simp
  have b: "unat b < 256" using unsigned_less [of b, where ?'a = nat] by simp
  note s = sextets(1,3,4) [OF a b b]
  show ?case
    by (simp add: printable_encodeStd_nth printable_encodeStd(2) s)
next
  case (4 a b c rest)
  have a: "unat a < 256" using unsigned_less [of a, where ?'a = nat] by simp
  have b: "unat b < 256" using unsigned_less [of b, where ?'a = nat] by simp
  have c: "unat c < 256" using unsigned_less [of c, where ?'a = nat] by simp
  note s = sextets(1,3,5,6) [OF a b c]
  from 4 show ?case
    by (simp add: printable_encodeStd_nth s)
qed

lemma EncodeToString_not_Nil: "bs \<noteq> [] \<Longrightarrow> EncodeToString bs \<noteq> []"
  by (induction bs rule: EncodeToString.induct) simp_all

lemma DecodeString_EncodeToString: "DecodeString (EncodeToString bs) = Some bs"
proof -
  have "\<forall>c \<in> set (EncodeToString bs). c \<noteq> CHR 0x0A \<and> c \<noteq> CHR 0x0D"
    using EncodeToString_printable [of bs] printable_neq by (auto simp: list_all_iff)
  then have "filter (\<lambda>c. c \<noteq> CHR 0x0A \<and> c \<noteq> CHR 0x0D) (EncodeToString bs) = EncodeToString bs"
    by (simp only: filter_id_conv)
  then show ?thesis
    by (simp only: DecodeString_def decodeQuanta_EncodeToString)
qed

lemma copyKey_id: "length k = KeyLen \<Longrightarrow> copyKey k = k"
  by (simp add: copyKey_def)

lemma ParseKey_serializeKey: "length k = KeyLen \<Longrightarrow> ParseKey (serializeKey k) = Inr k"
  by (simp add: ParseKey_def serializeKey_def DecodeString_EncodeToString copyKey_id)

lemma serializeKey_printable:
  "length k = KeyLen \<Longrightarrow> serializeKey k \<noteq> [] \<and> list_all printable (serializeKey k)"
proof -
  assume "length k = KeyLen"
  then have "k \<noteq> []" by (auto simp: KeyLen_def)
  then show ?thesis
    by (simp add: serializeKey_def EncodeToString_not_Nil EncodeToString_printable)
qed

section \<open>Decoding the text of the encoder\<close>

lemma peerText_lines: "peerText L p = concat (map ((#) (CHR 0x0A)) (peerLines L p))"
  by (simp add: peerText_def peerLines_def optionLine_def directiveLine_def
      split: option.splits)

lemma concat_peerText:
  "concat (map (peerText L) ps) = concat (map ((#) (CHR 0x0A)) (concat (map (peerLines L) ps)))"
  by (induction ps) (simp_all add: peerText_lines)

lemma MarshalText_lines:
  assumes "PrivateKey c = Some key"
    and "PreUp c = []" and "PostUp c = []" and "PreDown c = []" and "PostDown c = []"
  shows "MarshalText L c =
           Inr (''[Interface]'' @ concat (map ((#) (CHR 0x0A))
                 (interfaceLines L c key @ concat (map (peerLines L) (Peers c)) @ [[]])))"
proof -
  have a: "concat (map (\<lambda>a. [CHR 0x0A] @ ''Address = '' @ IPNet_String L a) xs)
      = concat (map ((#) (CHR 0x0A)) (map (\<lambda>a. directiveLine ''Address'' (IPNet_String L a)) xs))" for xs
    by (induction xs) (simp_all add: directiveLine_def)
  have d: "concat (map (\<lambda>d. [CHR 0x0A] @ ''DNS = '' @ IP_String L d) xs)
      = concat (map ((#) (CHR 0x0A)) (map (\<lambda>d. directiveLine ''DNS'' (IP_String L d)) xs))" for xs
    by (induction xs) (simp_all add: directiveLine_def)
  show ?thesis
    unfolding MarshalText_def assms option.case a d concat_peerText interfaceLines_def
    by (simp add: optionLine_def directiveLine_def formatBool_def split: option.splits)
qed

lemma Split_none: "sep \<notin> set l \<Longrightarrow> Split l sep = [l]"
  by (induction l) auto

lemma Split_first: "sep \<notin> set l \<Longrightarrow> Split (l @ sep # rest) sep = l # Split rest sep"
  by (induction l) (auto simp: Split_not_Nil split: list.splits)

lemma Split_lines:
  "sep \<notin> set l \<Longrightarrow> \<forall>x \<in> set ls. sep \<notin> set x
   \<Longrightarrow> Split (l @ concat (map ((#) sep) ls)) sep = l # ls"
proof (induction ls arbitrary: l)
  case Nil
  then show ?case by (simp add: Split_none)
next
  case (Cons x xs)
  then show ?case by (simp add: Split_first)
qed

lemma plainKeys:
  "plainKey ''Address''" "plainKey ''DNS''" "plainKey ''PrivateKey''" "plainKey ''ListenPort''"
  "plainKey ''MTU''" "plainKey ''Table''" "plainKey ''SaveConfig''" "plainKey ''PublicKey''"
  "plainKey ''AllowedIPs''" "plainKey ''PresharedKey''" "plainKey ''PersistentKeepalive''"
  "plainKey ''Endpoint''"
  by (simp_all add: plainKey_def trimmed_def spaceRunes_def)

lemma directiveLine_parts:
  assumes "plainKey key" and "trimmed v"
  shows "isDirective (directiveLine key v)"
    and "keyOf (directiveLine key v) = key"
    and "valueOf (directiveLine key v) = v"
proof -
  from assms have k: "trimmed key" "hd key \<noteq> CHR ''#''" "CHR ''='' \<notin> set key" "key \<noteq> []"
    by (simp_all add: plainKey_def trimmed_def)
  from k(1) assms(2) have "trimmed (key @ '' = '' @ v)" by (rule trimmed_append)
  then have t: "TrimSpace (directiveLine key v) = key @ '' = '' @ v"
    by (simp only: directiveLine_def TrimSpace_trimmed)
  from k show "isDirective (directiveLine key v)"
    by (simp add: isDirective_def t)
  from k(3) have ne: "\<And>c. c \<in> set key \<Longrightarrow> c \<noteq> CHR ''=''" by auto
  have tw: "takeWhile (\<lambda>c. c \<noteq> CHR ''='') (key @ '' = '' @ v) = key @ '' ''"
    by (simp add: takeWhile_append2 [of key, OF ne])
  have dw: "tl (dropWhile (\<lambda>c. c \<noteq> CHR ''='') (key @ '' = '' @ v)) = CHR '' '' # v"
    by (simp add: dropWhile_append2 [of key, OF ne])
  from k(1) show "keyOf (directiveLine key v) = key"
    by (simp only: keyOf_def t tw TrimSpace_trimmed_space)
  from assms(2) show "valueOf (directiveLine key v) = v"
    by (simp only: valueOf_def t dw TrimSpace_space_trimmed)
qed

lemma decodeLine_directiveLine:
  assumes "plainKey key" and "trimmed v"
  shows "decodeLine L no (directiveLine key v) d = dispatch L no d key v"
  using directiveLine_parts [OF assms] by (simp add: decodeLine_directive)

lemma newline_directiveLine:
  assumes "CHR 0x0A \<notin> set key" and "CHR 0x0A \<notin> set v"
  shows "CHR 0x0A \<notin> set (directiveLine key v)"
  using assms by (simp add: directiveLine_def)

lemma valueText_printable: "s \<noteq> [] \<Longrightarrow> list_all printable s \<Longrightarrow> valueText s"
  by (simp add: valueText_def trimmed_printable newline_printable)

lemma valueText_formatInt: "valueText (formatInt w)"
  using formatInt_printable [of w] by (simp add: valueText_printable)

lemma valueText_serializeKey: "length k = KeyLen \<Longrightarrow> valueText (serializeKey k)"
  using serializeKey_printable [of k] by (simp add: valueText_printable)

lemma valueText_true: "valueText ''true''"
  by (simp add: valueText_def trimmed_def spaceRunes_def)

lemma Split_single: "CHR '','' \<notin> set s \<Longrightarrow> Split s CHR '','' = [s]"
  by (rule Split_none)

lemma parse_Address:
  assumes "readableIPNet L a"
  shows "parseInterfaceLine L c ''Address'' (IPNet_String L a) = Inr (c\<lparr>Address := Address c @ [a]\<rparr>)"
  using assms
  by (auto simp: readableIPNet_def valueText_def parseInterfaceLine_def Split_single
      TrimSpace_trimmed split: option.splits)

lemma parse_DNS:
  assumes "readableIP L ip"
  shows "parseInterfaceLine L c ''DNS'' (IP_String L ip) = Inr (c\<lparr>DNS := DNS c @ [ip]\<rparr>)"
  using assms
  by (auto simp: readableIP_def valueText_def parseInterfaceLine_def Split_single
      TrimSpace_trimmed split: option.splits)

lemma parse_PrivateKey:
  assumes "length k = KeyLen"
  shows "parseInterfaceLine L c ''PrivateKey'' (serializeKey k) = Inr (c\<lparr>PrivateKey := Some k\<rparr>)"
  using assms by (simp add: parseInterfaceLine_def ParseKey_serializeKey)

lemma parse_ListenPort:
  "parseInterfaceLine L c ''ListenPort'' (formatInt w) = Inr (c\<lparr>ListenPort := Some w\<rparr>)"
  by (simp add: parseInterfaceLine_def ParseInt_formatInt)

lemma parse_MTU:
  "parseInterfaceLine L c ''MTU'' (formatInt w) = Inr (c\<lparr>MTU := w\<rparr>)"
  by (simp add: parseInterfaceLine_def ParseInt_formatInt)

lemma decimal_digits: "0 \<le> n \<Longrightarrow> set (decimal n) \<subseteq> set digits"
proof (induction n rule: decimal.induct)
  case (1 n)
  have len: "length digits = 10" by (simp add: digits_def)
  show ?case
  proof (cases "n < 10")
    case True
    with "1.prems" have "nat n < length digits" by (simp add: len)
    then have "digits ! nat n \<in> set digits" by (rule nth_mem)
    with True show ?thesis by (subst decimal.simps) simp
  next
    case False
    with "1.prems" have ih: "set (decimal (n div 10)) \<subseteq> set digits"
      using "1.IH" by simp
    from "1.prems" have "nat (n mod 10) < length digits" by (simp add: len)
    then have "digits ! nat (n mod 10) \<in> set digits" by (rule nth_mem)
    with False ih show ?thesis by (subst decimal.simps) simp
  qed
qed

lemma formatInt_chars: "set (formatInt w) \<subseteq> set (CHR ''-'' # digits)"
proof (cases "sint w < 0")
  case True
  then have "0 \<le> - sint w" by simp
  from decimal_digits [OF this] True show ?thesis by (auto simp: formatInt_def)
next
  case False
  then have "0 \<le> sint w" by simp
  from decimal_digits [OF this] False show ?thesis by (auto simp: formatInt_def)
qed

lemma lowerByte_sign_digits: "\<forall>c \<in> set (CHR ''-'' # digits). lowerByte c \<noteq> CHR ''o''"
  by (simp add: digits_def lowerByte_def)

lemma not_off_formatInt: "\<not> lowerIsOff (formatInt w)"
proof
  assume "lowerIsOff (formatInt w)"
  then have m: "map lowerByte (formatInt w) = ''off''" by (simp add: lowerIsOff_def)
  then obtain c cs where f: "formatInt w = c # cs" by (cases "formatInt w") auto
  with m have o: "lowerByte c = CHR ''o''" by simp
  from f have "c \<in> set (formatInt w)" by simp
  with formatInt_chars have "c \<in> set (CHR ''-'' # digits)" by blast
  with lowerByte_sign_digits o show False by blast
qed

lemma parse_Table:
  "parseInterfaceLine L c ''Table'' (formatInt w) = Inr (c\<lparr>Table := Some w\<rparr>)"
  by (simp add: parseInterfaceLine_def ParseInt_formatInt not_off_formatInt)

lemma parse_SaveConfig:
  "parseInterfaceLine L c ''SaveConfig'' ''true'' = Inr (c\<lparr>SaveConfig := True\<rparr>)"
  by (simp add: parseInterfaceLine_def ParseBool_def)

lemma decode_interface_line:
  assumes "state d = inter" and "plainKey key" and "trimmed v"
    and "parseInterfaceLine L (cfg d) key v = Inr c'"
  shows "decodeLine L no (directiveLine key v) d = Inr (d\<lparr>cfg := c'\<rparr>)"
  using assms by (simp add: decodeLine_directiveLine dispatch_def)

lemma decode_addresses:
  assumes "state d = inter" and "list_all (readableIPNet L) as"
  shows "decodeLines L no (map (\<lambda>a. directiveLine ''Address'' (IPNet_String L a)) as) d
           = Inr (d\<lparr>cfg := (cfg d)\<lparr>Address := Address (cfg d) @ as\<rparr>\<rparr>)"
  using assms
proof (induction as arbitrary: d no)
  case Nil
  then show ?case by simp
next
  case (Cons a as)
  from Cons.prems have a: "readableIPNet L a" by simp
  then have t: "trimmed (IPNet_String L a)" by (simp add: readableIPNet_def valueText_def)
  let ?d1 = "d\<lparr>cfg := (cfg d)\<lparr>Address := Address (cfg d) @ [a]\<rparr>\<rparr>"
  have "decodeLine L no (directiveLine ''Address'' (IPNet_String L a)) d = Inr ?d1"
    using Cons.prems(1) plainKeys(1) t parse_Address [OF a] by (rule decode_interface_line)
  moreover from Cons.prems have "state ?d1 = inter" "list_all (readableIPNet L) as" by simp_all
  note Cons.IH [OF this, of "Suc no"]
  ultimately show ?case by simp
qed

lemma decode_dns:
  assumes "state d = inter" and "list_all (readableIP L) ds"
  shows "decodeLines L no (map (\<lambda>ip. directiveLine ''DNS'' (IP_String L ip)) ds) d
           = Inr (d\<lparr>cfg := (cfg d)\<lparr>DNS := DNS (cfg d) @ ds\<rparr>\<rparr>)"
  using assms
proof (induction ds arbitrary: d no)
  case Nil
  then show ?case by simp
next
  case (Cons a ds)
  from Cons.prems have a: "readableIP L a" by simp
  then have t: "trimmed (IP_String L a)" by (simp add: readableIP_def valueText_def)
  let ?d1 = "d\<lparr>cfg := (cfg d)\<lparr>DNS := DNS (cfg d) @ [a]\<rparr>\<rparr>"
  have "decodeLine L no (directiveLine ''DNS'' (IP_String L a)) d = Inr ?d1"
    using Cons.prems(1) plainKeys(2) t parse_DNS [OF a] by (rule decode_interface_line)
  moreover from Cons.prems have "state ?d1 = inter" "list_all (readableIP L) ds" by simp_all
  note Cons.IH [OF this, of "Suc no"]
  ultimately show ?case by simp
qed

lemma trimmed_values:
  "trimmed (formatInt w)" "length k = KeyLen \<Longrightarrow> trimmed (serializeKey k)" "trimmed ''true''"
  using valueText_formatInt [of w] valueText_serializeKey [of k] valueText_true
  by (simp_all add: valueText_def)

lemma decode_interfaceLines:
  assumes "state d = inter" and "length key = KeyLen"
    and "list_all (readableIPNet L) (Address c)" and "list_all (readableIP L) (DNS c)"
    and "Table c = Some t"
  shows "decodeLines L no (interfaceLines L c key) d =
           Inr (d\<lparr>cfg := (cfg d)
                  \<lparr>Address := Address (cfg d) @ Address c,
                   DNS := DNS (cfg d) @ DNS c,
                   PrivateKey := Some key,
                   ListenPort := (case ListenPort c of None \<Rightarrow> ListenPort (cfg d) | Some p \<Rightarrow> Some p),
                   MTU := (if MTU c \<noteq> 0 then MTU c else MTU (cfg d)),
                   Table := Some t,
                   SaveConfig := (if SaveConfig c then True else SaveConfig (cfg d))\<rparr>\<rparr>)"
  using assms
  by (cases "ListenPort c"; cases "MTU c = 0"; cases "SaveConfig c")
    (simp_all add: interfaceLines_def optionLine_def decodeLines_append decode_addresses decode_dns
      decode_interface_line plainKeys trimmed_values parse_PrivateKey parse_ListenPort parse_MTU
      parse_Table parse_SaveConfig)

lemma decode_peer_line:
  assumes "state d = peer" and "peerCfg d = Some i" and "plainKey key" and "trimmed v"
    and "parsePeerLine L (Peers (cfg d) ! i) key v = Inr p'"
  shows "decodeLine L no (directiveLine key v) d
           = Inr (d\<lparr>cfg := (cfg d)\<lparr>Peers := (Peers (cfg d))[i := p']\<rparr>\<rparr>)"
  using assms by (simp add: decodeLine_directiveLine dispatch_def)

lemma parse_PublicKey:
  "length k = KeyLen \<Longrightarrow>
   parsePeerLine L p ''PublicKey'' (serializeKey k) = Inr (p\<lparr>PublicKey := k\<rparr>)"
  by (simp add: parsePeerLine_def ParseKey_serializeKey)

lemma parse_PresharedKey:
  "length k = KeyLen \<Longrightarrow> PresharedKey p = None \<Longrightarrow>
   parsePeerLine L p ''PresharedKey'' (serializeKey k) = Inr (p\<lparr>PresharedKey := Some k\<rparr>)"
  by (simp add: parsePeerLine_def ParseKey_serializeKey)

lemma parse_Endpoint:
  "readableUDPAddr L addr \<Longrightarrow>
   parsePeerLine L p ''Endpoint'' (UDPAddr_String L addr) = Inr (p\<lparr>Endpoint := Some addr\<rparr>)"
  by (simp add: parsePeerLine_def readableUDPAddr_def)

lemma parse_PersistentKeepalive:
  "wholeSeconds duration \<Longrightarrow>
   parsePeerLine L p ''PersistentKeepalive'' (formatInt (toSeconds duration))
     = Inr (p\<lparr>PersistentKeepaliveInterval := Some duration\<rparr>)"
  by (simp add: parsePeerLine_def ParseInt_formatInt wholeSeconds_def)

lemma Split_Join_commas:
  assumes "\<forall>x \<in> set (a # rest). CHR '','' \<notin> set (f x)"
  shows "Split (Join (map f (a # rest)) '', '') CHR '','' = f a # map (\<lambda>x. CHR '' '' # f x) rest"
  using assms
proof (induction rest arbitrary: a)
  case Nil
  then show ?case by (simp add: Split_none)
next
  case (Cons b rest)
  from Cons.prems have ih: "Split (Join (map f (b # rest)) '', '') CHR '','' = f b # map (\<lambda>x. CHR '' '' # f x) rest"
    by (intro Cons.IH) simp
  from Cons.prems have "CHR '','' \<notin> set (f a)" by simp
  then have "Split (f a @ CHR '','' # CHR '' '' # Join (map f (b # rest)) '', '') CHR '',''
      = f a # Split (CHR '' '' # Join (map f (b # rest)) '', '') CHR '',''"
    by (rule Split_first)
  with ih show ?case by simp
qed

lemma parseCIDRs_readable:
  assumes "list_all (readableIPNet L) as"
    and "\<forall>x \<in> set as. TrimSpace (g x) = IPNet_String L x"
  shows "parseCIDRs L (map g as) acc = Some (acc @ as)"
  using assms
proof (induction as arbitrary: acc)
  case Nil
  then show ?case by simp
next
  case (Cons a as)
  from Cons.prems obtain ip cidr where
    "ParseCIDR L (IPNet_String L a) = Some (ip, cidr)" "a = \<lparr>IP = ip, Mask = Mask cidr\<rparr>"
    by (auto simp: readableIPNet_def split: option.splits)
  with Cons show ?case by simp
qed

lemma parse_AllowedIPs:
  assumes "as \<noteq> []" and "list_all (readableIPNet L) as"
  shows "parsePeerLine L p ''AllowedIPs'' (Join (map (IPNet_String L) as) '', '')
           = Inr (p\<lparr>AllowedIPs := AllowedIPs p @ as\<rparr>)"
proof -
  from assms(1) obtain a rest where as: "as = a # rest" by (cases as) auto
  from assms(2) have r: "\<forall>x \<in> set as. readableIPNet L x" by (simp add: list_all_iff)
  then have c: "\<forall>x \<in> set (a # rest). CHR '','' \<notin> set (IPNet_String L x)"
    by (simp add: as readableIPNet_def)
  from r have t: "\<forall>x \<in> set as. trimmed (IPNet_String L x)"
    by (simp add: readableIPNet_def valueText_def)
  let ?g = "\<lambda>x. if x = a then IPNet_String L x else CHR '' '' # IPNet_String L x"
  have s: "Split (Join (map (IPNet_String L) (a # rest)) '', '') CHR '',''
      = IPNet_String L a # map (\<lambda>x. CHR '' '' # IPNet_String L x) rest"
    using c by (rule Split_Join_commas)
  from t have ta: "TrimSpace (IPNet_String L a) = IPNet_String L a"
    by (simp add: as TrimSpace_trimmed)
  from t have tr: "\<forall>x \<in> set rest. TrimSpace (CHR '' '' # IPNet_String L x) = IPNet_String L x"
    by (simp add: as TrimSpace_space_trimmed)
  from assms(2) have la: "readableIPNet L a" and lr: "list_all (readableIPNet L) rest"
    by (simp_all add: as)
  have first: "parseCIDRs L (IPNet_String L a # ys) acc = parseCIDRs L ys (acc @ [a])" for ys acc
  proof -
    from la obtain ip cidr where
      "ParseCIDR L (IPNet_String L a) = Some (ip, cidr)" "a = \<lparr>IP = ip, Mask = Mask cidr\<rparr>"
      by (auto simp: readableIPNet_def split: option.splits)
    with ta show ?thesis by simp
  qed
  have "parseCIDRs L (map (\<lambda>x. CHR '' '' # IPNet_String L x) rest) (AllowedIPs p @ [a])
      = Some ((AllowedIPs p @ [a]) @ rest)"
    using lr tr by (rule parseCIDRs_readable)
  then have "parseCIDRs L (Split (Join (map (IPNet_String L) as) '', '') CHR '','') (AllowedIPs p)
      = Some (AllowedIPs p @ as)"
    unfolding as by (simp only: s first append_assoc append_Cons append_Nil)
  then show ?thesis by (simp add: parsePeerLine_def)
qed

lemma trimmed_Join:
  assumes "xs \<noteq> []" and "\<forall>x \<in> set xs. trimmed x"
  shows "trimmed (Join xs sep)"
  using assms
proof (induction xs sep rule: Join.induct)
  case (1 sep)
  then show ?case by simp
next
  case (2 a sep)
  then show ?case by simp
next
  case (3 a b rest sep)
  then have "trimmed a" "trimmed (Join (b # rest) sep)" by simp_all
  then have "trimmed (a @ sep @ Join (b # rest) sep)" by (rule trimmed_append)
  then show ?case by simp
qed

lemma newline_Join:
  assumes "\<forall>x \<in> set xs. c \<notin> set x" and "c \<notin> set sep"
  shows "c \<notin> set (Join xs sep)"
  using assms by (induction xs sep rule: Join.induct) simp_all

lemma trimmed_AllowedIPs:
  assumes "as \<noteq> []" and "list_all (readableIPNet L) as"
  shows "trimmed (Join (map (IPNet_String L) as) '', '')"
    and "CHR 0x0A \<notin> set (Join (map (IPNet_String L) as) '', '')"
proof -
  from assms(2) have "\<forall>x \<in> set (map (IPNet_String L) as). trimmed x"
    by (auto simp: list_all_iff readableIPNet_def valueText_def)
  with assms(1) show "trimmed (Join (map (IPNet_String L) as) '', '')"
    by (intro trimmed_Join) simp_all
  from assms(2) have "\<forall>x \<in> set (map (IPNet_String L) as). CHR 0x0A \<notin> set x"
    by (auto simp: list_all_iff readableIPNet_def valueText_def)
  then show "CHR 0x0A \<notin> set (Join (map (IPNet_String L) as) '', '')"
    by (rule newline_Join) simp
qed

lemma decode_Peer_header: "decodeLine L no ''[Peer]'' d = Inr (inPeer d zeroPeerConfig)"
  by (simp add: decodeLine_def TrimSpace_Peer inPeer_def)

lemma decode_in_peer:
  assumes "plainKey key" and "trimmed v" and "parsePeerLine L q key v = Inr q'"
  shows "decodeLine L no (directiveLine key v) (inPeer d q) = Inr (inPeer d q')"
proof -
  have "state (inPeer d q) = peer" "peerCfg (inPeer d q) = Some (length (Peers (cfg d)))"
    "Peers (cfg (inPeer d q)) ! length (Peers (cfg d)) = q"
    by (simp_all add: inPeer_def)
  with assms have "decodeLine L no (directiveLine key v) (inPeer d q)
      = Inr ((inPeer d q)\<lparr>cfg := (cfg (inPeer d q))
              \<lparr>Peers := (Peers (cfg (inPeer d q)))[length (Peers (cfg d)) := q']\<rparr>\<rparr>)"
    by (intro decode_peer_line) simp_all
  then show ?thesis by (simp add: inPeer_def)
qed

lemma decode_option_in_peer:
  assumes "plainKey key" and "\<And>s. v = Some s \<Longrightarrow> trimmed s \<and> parsePeerLine L q key s = Inr q'"
  shows "decodeLines L no (optionLine key v) (inPeer d q)
           = Inr (inPeer d (case v of None \<Rightarrow> q | Some s \<Rightarrow> q'))"
proof (cases v)
  case None
  then show ?thesis by (simp add: optionLine_def)
next
  case (Some s)
  with assms(2) have "trimmed s" "parsePeerLine L q key s = Inr q'" by simp_all
  with assms(1) have "decodeLine L no (directiveLine key s) (inPeer d q) = Inr (inPeer d q')"
    by (rule decode_in_peer)
  with Some show ?thesis by (simp add: optionLine_def)
qed

lemma zeroPeerConfig_fields:
  "PublicKey zeroPeerConfig = zeroKey" "Remove zeroPeerConfig = False"
  "UpdateOnly zeroPeerConfig = False" "PresharedKey zeroPeerConfig = None"
  "Endpoint zeroPeerConfig = None" "PersistentKeepaliveInterval zeroPeerConfig = None"
  "ReplaceAllowedIPs zeroPeerConfig = False" "AllowedIPs zeroPeerConfig = []"
  by (simp_all add: zeroPeerConfig_def)

lemma update_same:
  "PresharedKey q = v1 \<Longrightarrow> q\<lparr>PresharedKey := v1\<rparr> = q"
  "PersistentKeepaliveInterval q = v2 \<Longrightarrow> q\<lparr>PersistentKeepaliveInterval := v2\<rparr> = q"
  "Endpoint q = v3 \<Longrightarrow> q\<lparr>Endpoint := v3\<rparr> = q"
  by (cases q; simp)+

lemma decode_peerLines:
  assumes "codablePeer L p"
  shows "decodeLines L no (peerLines L p) d = Inr (inPeer d p)"
proof -
  from assms have pk: "length (PublicKey p) = KeyLen"
    and ips: "AllowedIPs p \<noteq> []" "list_all (readableIPNet L) (AllowedIPs p)"
    and psk: "\<And>k. PresharedKey p = Some k \<Longrightarrow> length k = KeyLen"
    and ep: "\<And>a. Endpoint p = Some a \<Longrightarrow> readableUDPAddr L a"
    and ka: "\<And>t. PersistentKeepaliveInterval p = Some t \<Longrightarrow> wholeSeconds t"
    and flags: "\<not> Remove p" "\<not> UpdateOnly p" "\<not> ReplaceAllowedIPs p"
    by (simp_all add: codablePeer_def)
  let ?q1 = "zeroPeerConfig\<lparr>PublicKey := PublicKey p\<rparr>"
  let ?q2 = "?q1\<lparr>AllowedIPs := AllowedIPs p\<rparr>"
  let ?q3 = "?q2\<lparr>PresharedKey := PresharedKey p\<rparr>"
  let ?q4 = "?q3\<lparr>PersistentKeepaliveInterval := PersistentKeepaliveInterval p\<rparr>"
  let ?q5 = "?q4\<lparr>Endpoint := Endpoint p\<rparr>"
  have s0: "decodeLines L no [[], ''[Peer]''] d = Inr (inPeer d zeroPeerConfig)"
    by (simp add: decode_blank decode_Peer_header)
  have s1: "decodeLine L n (directiveLine ''PublicKey'' (serializeKey (PublicKey p)))
      (inPeer d zeroPeerConfig) = Inr (inPeer d ?q1)" for n
    using plainKeys(8) trimmed_values(2) [OF pk] parse_PublicKey [OF pk]
    by (rule decode_in_peer)
  have s2: "decodeLine L n (directiveLine ''AllowedIPs'' (Join (map (IPNet_String L) (AllowedIPs p)) '', ''))
      (inPeer d ?q1) = Inr (inPeer d ?q2)" for n
  proof -
    have "parsePeerLine L ?q1 ''AllowedIPs'' (Join (map (IPNet_String L) (AllowedIPs p)) '', '')
        = Inr (?q1\<lparr>AllowedIPs := AllowedIPs ?q1 @ AllowedIPs p\<rparr>)"
      using ips by (rule parse_AllowedIPs)
    then have "parsePeerLine L ?q1 ''AllowedIPs'' (Join (map (IPNet_String L) (AllowedIPs p)) '', '')
        = Inr ?q2"
      by (simp add: zeroPeerConfig_fields)
    with plainKeys(9) trimmed_AllowedIPs(1) [OF ips] show ?thesis
      by (rule decode_in_peer)
  qed
  have s3: "decodeLines L n (optionLine ''PresharedKey'' (map_option serializeKey (PresharedKey p)))
      (inPeer d ?q2) = Inr (inPeer d ?q3)" for n
  proof (cases "PresharedKey p")
    case None
    then show ?thesis by (simp add: optionLine_def zeroPeerConfig_fields update_same)
  next
    case (Some k)
    with psk have k: "length k = KeyLen" by simp
    have "parsePeerLine L ?q2 ''PresharedKey'' (serializeKey k) = Inr (?q2\<lparr>PresharedKey := Some k\<rparr>)"
      using k by (rule parse_PresharedKey) (simp add: zeroPeerConfig_fields)
    with plainKeys(10) trimmed_values(2) [OF k]
    have "decodeLine L n (directiveLine ''PresharedKey'' (serializeKey k)) (inPeer d ?q2)
        = Inr (inPeer d (?q2\<lparr>PresharedKey := Some k\<rparr>))"
      by (rule decode_in_peer)
    with Some show ?thesis by (simp add: optionLine_def)
  qed
  have s4: "decodeLines L n (optionLine ''PersistentKeepalive''
         (map_option (\<lambda>d. formatInt (toSeconds d)) (PersistentKeepaliveInterval p)))
      (inPeer d ?q3) = Inr (inPeer d ?q4)" for n
  proof (cases "PersistentKeepaliveInterval p")
    case None
    then show ?thesis by (simp add: optionLine_def zeroPeerConfig_fields update_same)
  next
    case (Some t)
    with ka have "wholeSeconds t" by simp
    then have "parsePeerLine L ?q3 ''PersistentKeepalive'' (formatInt (toSeconds t))
        = Inr (?q3\<lparr>PersistentKeepaliveInterval := Some t\<rparr>)"
      by (rule parse_PersistentKeepalive)
    with plainKeys(11) trimmed_values(1)
    have "decodeLine L n (directiveLine ''PersistentKeepalive'' (formatInt (toSeconds t))) (inPeer d ?q3)
        = Inr (inPeer d (?q3\<lparr>PersistentKeepaliveInterval := Some t\<rparr>))"
      by (rule decode_in_peer)
    with Some show ?thesis by (simp add: optionLine_def)
  qed
  have s5: "decodeLines L n (optionLine ''Endpoint'' (map_option (UDPAddr_String L) (Endpoint p)))
      (inPeer d ?q4) = Inr (inPeer d ?q5)" for n
  proof (cases "Endpoint p")
    case None
    then show ?thesis by (simp add: optionLine_def zeroPeerConfig_fields update_same)
  next
    case (Some a)
    with ep have a: "readableUDPAddr L a" by simp
    then have t: "trimmed (UDPAddr_String L a)" by (simp add: readableUDPAddr_def valueText_def)
    have "parsePeerLine L ?q4 ''Endpoint'' (UDPAddr_String L a) = Inr (?q4\<lparr>Endpoint := Some a\<rparr>)"
      using a by (rule parse_Endpoint)
    with plainKeys(12) t
    have "decodeLine L n (directiveLine ''Endpoint'' (UDPAddr_String L a)) (inPeer d ?q4)
        = Inr (inPeer d (?q4\<lparr>Endpoint := Some a\<rparr>))"
      by (rule decode_in_peer)
    with Some show ?thesis by (simp add: optionLine_def)
  qed
  have fin: "?q5 = p"
    using flags by (intro PeerConfig.equality) (simp_all add: zeroPeerConfig_fields)
  have tail: "decodeLines L n
       (optionLine ''PresharedKey'' (map_option serializeKey (PresharedKey p))
        @ optionLine ''PersistentKeepalive''
            (map_option (\<lambda>d. formatInt (toSeconds d)) (PersistentKeepaliveInterval p))
        @ optionLine ''Endpoint'' (map_option (UDPAddr_String L) (Endpoint p)))
       (inPeer d ?q2) = Inr (inPeer d ?q5)" for n
    by (simp only: decodeLines_append s3 s4 s5 sum.case)
  have head: "decodeLines L no
       [[], ''[Peer]'',
        directiveLine ''PublicKey'' (serializeKey (PublicKey p)),
        directiveLine ''AllowedIPs'' (Join (map (IPNet_String L) (AllowedIPs p)) '', '')] d
      = Inr (inPeer d ?q2)"
    by (simp add: decode_blank decode_Peer_header s1 s2)
  have "decodeLines L no (peerLines L p) d = Inr (inPeer d ?q5)"
    unfolding peerLines_def
    by (simp only: decodeLines_append [of L no "[_, _, _, _]"] head tail sum.case)
  with fin show ?thesis by simp
qed

lemma decode_peers:
  assumes "list_all (codablePeer L) ps"
  shows "\<exists>d'. decodeLines L no (concat (map (peerLines L) ps)) d = Inr d'
           \<and> cfg d' = (cfg d)\<lparr>Peers := Peers (cfg d) @ ps\<rparr>"
  using assms
proof (induction ps arbitrary: d no)
  case Nil
  then show ?case by simp
next
  case (Cons p ps)
  then have p: "codablePeer L p" and ps: "list_all (codablePeer L) ps" by simp_all
  from Cons.IH [OF ps, of "no + length (peerLines L p)" "inPeer d p"]
  obtain d' where d': "decodeLines L (no + length (peerLines L p)) (concat (map (peerLines L) ps)) (inPeer d p) = Inr d'"
      "cfg d' = (cfg (inPeer d p))\<lparr>Peers := Peers (cfg (inPeer d p)) @ ps\<rparr>"
    by blast
  from d'(1) have "decodeLines L no (concat (map (peerLines L) (p # ps))) d = Inr d'"
    by (simp add: decodeLines_append decode_peerLines [OF p])
  moreover from d'(2) have "cfg d' = (cfg d)\<lparr>Peers := Peers (cfg d) @ p # ps\<rparr>"
    by (simp add: inPeer_def)
  ultimately show ?case by blast
qed

lemma newline_optionLine:
  assumes "CHR 0x0A \<notin> set key" and "\<And>s. v = Some s \<Longrightarrow> CHR 0x0A \<notin> set s"
  shows "\<forall>x \<in> set (optionLine key v). CHR 0x0A \<notin> set x"
  using assms by (cases v) (simp_all add: optionLine_def directiveLine_def)

lemma newline_values:
  "CHR 0x0A \<notin> set (formatInt w)" "length k = KeyLen \<Longrightarrow> CHR 0x0A \<notin> set (serializeKey k)"
  using valueText_formatInt [of w] valueText_serializeKey [of k]
  by (simp_all add: valueText_def)

lemma newline_interfaceLines:
  assumes "length key = KeyLen"
    and "list_all (readableIPNet L) (Address c)" and "list_all (readableIP L) (DNS c)"
  shows "\<forall>x \<in> set (interfaceLines L c key). CHR 0x0A \<notin> set x"
proof -
  from assms(2) have a: "\<forall>a \<in> set (Address c). CHR 0x0A \<notin> set (IPNet_String L a)"
    by (simp add: list_all_iff readableIPNet_def valueText_def)
  from assms(3) have d: "\<forall>a \<in> set (DNS c). CHR 0x0A \<notin> set (IP_String L a)"
    by (simp add: list_all_iff readableIP_def valueText_def)
  have o1: "\<forall>x \<in> set (optionLine ''ListenPort'' (map_option formatInt (ListenPort c))). CHR 0x0A \<notin> set x"
    by (rule newline_optionLine) (auto simp: newline_values)
  have o2: "\<forall>x \<in> set (optionLine ''MTU'' (if MTU c \<noteq> 0 then Some (formatInt (MTU c)) else None)).
      CHR 0x0A \<notin> set x"
    by (rule newline_optionLine) (auto simp: newline_values split: if_splits)
  have o3: "\<forall>x \<in> set (optionLine ''Table'' (map_option formatInt (Table c))). CHR 0x0A \<notin> set x"
    by (rule newline_optionLine) (auto simp: newline_values)
  have o4: "\<forall>x \<in> set (optionLine ''SaveConfig'' (if SaveConfig c then Some ''true'' else None)).
      CHR 0x0A \<notin> set x"
    by (rule newline_optionLine) (auto split: if_splits)
  from a d o1 o2 o3 o4 newline_values(2) [OF assms(1)] show ?thesis
    unfolding interfaceLines_def by (auto simp: directiveLine_def)
qed

lemma newline_peerLines:
  assumes "codablePeer L p"
  shows "\<forall>x \<in> set (peerLines L p). CHR 0x0A \<notin> set x"
proof -
  from assms have pk: "length (PublicKey p) = KeyLen"
    and ips: "AllowedIPs p \<noteq> []" "list_all (readableIPNet L) (AllowedIPs p)"
    and psk: "\<And>k. PresharedKey p = Some k \<Longrightarrow> length k = KeyLen"
    and ep: "\<And>a. Endpoint p = Some a \<Longrightarrow> readableUDPAddr L a"
    by (simp_all add: codablePeer_def)
  have o1: "\<forall>x \<in> set (optionLine ''PresharedKey'' (map_option serializeKey (PresharedKey p))).
      CHR 0x0A \<notin> set x"
    by (rule newline_optionLine) (auto simp: newline_values psk)
  have o2: "\<forall>x \<in> set (optionLine ''PersistentKeepalive''
         (map_option (\<lambda>d. formatInt (toSeconds d)) (PersistentKeepaliveInterval p))).
      CHR 0x0A \<notin> set x"
    by (rule newline_optionLine) (auto simp: newline_values)
  have o3: "\<forall>x \<in> set (optionLine ''Endpoint'' (map_option (UDPAddr_String L) (Endpoint p))).
      CHR 0x0A \<notin> set x"
  proof (rule newline_optionLine)
    show "CHR 0x0A \<notin> set ''Endpoint''" by simp
  next
    fix s assume "map_option (UDPAddr_String L) (Endpoint p) = Some s"
    then obtain a where "Endpoint p = Some a" "s = UDPAddr_String L a" by auto
    with ep show "CHR 0x0A \<notin> set s" by (simp add: readableUDPAddr_def valueText_def)
  qed
  from o1 o2 o3 newline_values(2) [OF pk] trimmed_AllowedIPs(2) [OF ips] show ?thesis
    unfolding peerLines_def by (auto simp: directiveLine_def)
qed

lemma newline_all_peerLines:
  assumes "list_all (codablePeer L) ps"
  shows "\<forall>x \<in> set (concat (map (peerLines L) ps)). CHR 0x0A \<notin> set x"
  using assms newline_peerLines by (auto simp: list_all_iff)

section \<open>The round trip\<close>

text \<open>
  C2, as the claim states it, fails: a configuration with the hook command
  \<open>echo hello\<close> in \<open>PreUp\<close> is written with the whole list in brackets on one line, which
  is read back as the single command \<open>[echo hello]\<close>.
\<close>

theorem hooks_do_not_round_trip:
  "MarshalText exampleNet (keyConfig\<lparr>PreUp := [''echo hello'']\<rparr>) = Inr preUpText
   \<and> UnmarshalText exampleNet preUpText = Inr (keyConfig\<lparr>PreUp := [''[echo hello]'']\<rparr>)
   \<and> keyConfig\<lparr>PreUp := [''[echo hello]'']\<rparr> \<noteq> keyConfig\<lparr>PreUp := [''echo hello'']\<rparr>"
proof -
  have "PreUp (keyConfig\<lparr>PreUp := [''[echo hello]'']\<rparr>) \<noteq> PreUp (keyConfig\<lparr>PreUp := [''echo hello'']\<rparr>)"
    by simp
  then have "keyConfig\<lparr>PreUp := [''[echo hello]'']\<rparr> \<noteq> keyConfig\<lparr>PreUp := [''echo hello'']\<rparr>"
    by (metis)
  then show ?thesis
    by (simp add: MarshalText_examples UnmarshalText_examples)
qed

text \<open>
  C2, amended. For every configuration that the text format can carry
  (\<open>codableConfig\<close>: the private key present, the routing table not disabled, no hook
  commands, the fields without a directive at their zero value, every peer with at
  least one allowed network, keys of 32 bytes, keep-alive intervals of whole seconds,
  and addresses, name servers, allowed networks and endpoints that package \<open>net\<close>
  reads back from what it prints), \<open>MarshalText\<close> returns a text and \<open>UnmarshalText\<close> of
  that text returns the same configuration: the same addresses, name servers and
  peers in the same order, and the same keys.
\<close>

theorem decode_encode:
  assumes "codableConfig L c"
  shows "\<exists>text. MarshalText L c = Inr text \<and> UnmarshalText L text = Inr c"
proof -
  from assms obtain key t where key: "PrivateKey c = Some key" "length key = KeyLen"
    and t: "Table c = Some t"
    by (auto simp: codableConfig_def split: option.splits)
  from assms have hooks: "PreUp c = []" "PostUp c = []" "PreDown c = []" "PostDown c = []"
    and rest: "WgBin c = []" "FirewallMark c = None" "\<not> ReplacePeers c"
      "RouteProtocol c = 0" "RouteMetric c = 0" "AddressLabel c = []"
    and addrs: "list_all (readableIPNet L) (Address c)"
    and dns: "list_all (readableIP L) (DNS c)"
    and peers: "list_all (codablePeer L) (Peers c)"
    by (simp_all add: codableConfig_def)
  let ?lines = "interfaceLines L c key @ concat (map (peerLines L) (Peers c)) @ [[]]"
  let ?text = "''[Interface]'' @ concat (map ((#) (CHR 0x0A)) ?lines)"
  have enc: "MarshalText L c = Inr ?text"
    using key(1) hooks by (rule MarshalText_lines)
  have "\<forall>x \<in> set ?lines. CHR 0x0A \<notin> set x"
    using newline_interfaceLines [OF key(2) addrs dns] newline_all_peerLines [OF peers]
    by auto
  then have split: "Split ?text CHR 0x0A = ''[Interface]'' # ?lines"
    by (intro Split_lines) simp_all
  let ?d1 = "decodeStart\<lparr>state := inter\<rparr>"
  let ?c2 = "(cfg ?d1)
                  \<lparr>Address := Address (cfg ?d1) @ Address c,
                   DNS := DNS (cfg ?d1) @ DNS c,
                   PrivateKey := Some key,
                   ListenPort := (case ListenPort c of None \<Rightarrow> ListenPort (cfg ?d1) | Some p \<Rightarrow> Some p),
                   MTU := (if MTU c \<noteq> 0 then MTU c else MTU (cfg ?d1)),
                   Table := Some t,
                   SaveConfig := (if SaveConfig c then True else SaveConfig (cfg ?d1))\<rparr>"
  let ?d2 = "?d1\<lparr>cfg := ?c2\<rparr>"
  have s1: "decodeLine L 0 ''[Interface]'' decodeStart = Inr ?d1"
    by (rule decode_Interface)
  have s2: "decodeLines L (Suc 0) (interfaceLines L c key) ?d1 = Inr ?d2"
    by (rule decode_interfaceLines) (simp_all add: decodeStart_def key addrs dns t)
  from decode_peers [OF peers, of "Suc 0 + length (interfaceLines L c key)" ?d2]
  obtain d3 where s3: "decodeLines L (Suc 0 + length (interfaceLines L c key))
        (concat (map (peerLines L) (Peers c))) ?d2 = Inr d3"
    and c3: "cfg d3 = (cfg ?d2)\<lparr>Peers := Peers (cfg ?d2) @ Peers c\<rparr>"
    by blast
  have "decodeLines L 0 (''[Interface]'' # ?lines) decodeStart = decodeLines L (Suc 0) ?lines ?d1"
    by (simp only: decodeLines.simps s1 sum.case)
  also have "\<dots> = decodeLines L (Suc 0 + length (interfaceLines L c key))
      (concat (map (peerLines L) (Peers c)) @ [[]]) ?d2"
    by (simp only: decodeLines_append s2 sum.case)
  also have "\<dots> = decodeLines L (Suc 0 + length (interfaceLines L c key)
        + length (concat (map (peerLines L) (Peers c)))) [[]] d3"
    by (simp only: decodeLines_append s3 sum.case)
  also have "\<dots> = Inr d3"
    by (simp add: decode_blank)
  finally have "decodeLines L 0 (''[Interface]'' # ?lines) decodeStart = Inr d3" .
  with split have dec: "UnmarshalText L ?text = Inr (cfg d3)"
    by (simp only: UnmarshalText_def sum.case)
  have "cfg d3 = c"
    unfolding c3 using key t hooks rest
    by (intro Config.equality)
      (simp_all add: decodeStart_def newConfig_def zeroConfig_def split: option.splits)
  with enc dec show ?thesis by auto
qed

lemma wholeSeconds_25: "toSeconds (25 * Second) = 25" "wholeSeconds (25 * Second)"
  by (simp_all add: wholeSeconds_def toSeconds_def Second_def)

lemma valueText_examples:
  "valueText ''10.0.0.1/24''" "valueText ''1.1.1.1''" "valueText ''192.0.2.1:51820''"
  by (simp_all add: valueText_def trimmed_def spaceRunes_def)

lemma readable_examples:
  "readableIPNet exampleNet exampleIPNet" "readableIP exampleNet exampleIP"
  "readableUDPAddr exampleNet exampleUDPAddr"
  by (simp_all add: readableIPNet_def readableIP_def readableUDPAddr_def exampleNet_def
      valueText_examples)

lemma length_exampleKey: "length exampleKey = KeyLen"
  by (simp add: exampleKey_def KeyLen_def)

lemma codable_examplePeer: "codablePeer exampleNet examplePeer"
  by (simp add: codablePeer_def examplePeer_def zeroPeerConfig_def length_exampleKey
      readable_examples wholeSeconds_25)

lemma codable_secondPeer:
  "codablePeer exampleNet (zeroPeerConfig\<lparr>PublicKey := exampleKey, AllowedIPs := [exampleIPNet]\<rparr>)"
  by (simp add: codablePeer_def zeroPeerConfig_def length_exampleKey readable_examples)

lemma codable_exampleConfig: "codableConfig exampleNet exampleConfig"
  by (simp add: codableConfig_def exampleConfig_def newConfig_def zeroConfig_def
      length_exampleKey readable_examples codable_examplePeer codable_secondPeer)

lemma formatInt_examples:
  "formatInt 51820 = ''51820''" "formatInt 1420 = ''1420''" "formatInt 25 = ''25''"
  by (simp_all add: formatInt_def decimal.simps digits_def)

lemma MarshalText_exampleConfig: "MarshalText exampleNet exampleConfig = Inr exampleConfigText"
  by (simp add: MarshalText_def exampleConfig_def newConfig_def zeroConfig_def peerText_def
      examplePeer_def zeroPeerConfig_def serializeKey_exampleKey exampleKeyText_def
      formatInt_examples formatInt_0 formatBool_def exampleNet_def wholeSeconds_25
      exampleConfigText_def)

theorem decode_encode_witness:
  "codableConfig exampleNet exampleConfig
   \<and> MarshalText exampleNet exampleConfig = Inr exampleConfigText
   \<and> UnmarshalText exampleNet exampleConfigText = Inr exampleConfig"
proof -
  from decode_encode [OF codable_exampleConfig]
  obtain enc where "MarshalText exampleNet exampleConfig = Inr enc"
    and "UnmarshalText exampleNet enc = Inr exampleConfig"
    by blast
  with MarshalText_exampleConfig codable_exampleConfig show ?thesis by simp
qed

end
